theory Spec2Isabelle
  imports Complex_Main "HOL-Library.AList"
begin

section \<open>Analytics tab: threshold preview, aggregation, confidence breakdown\<close>

text \<open>
  The raw face matches arrive as JSON, so every number in them is finite; identifiers of
  Microsoft Photos persons are database keys and are modelled as integers, measurements
  (\<open>iou\<close>, \<open>center_dist\<close>) and thresholds as rationals.
\<close>

record RawFaceMatch =
  ms_person_id :: int
  ms_person_name :: string
  immich_cluster_id :: string
  immich_cluster_name :: "string option"
  iou :: rat
  center_dist :: rat
  filename :: string

text \<open>
  \<open>filteredMatches\<close> of the Analytics component: the local preview under the pending
  thresholds. \<open>None\<close> stands for a missing \<open>rawMatches\<close> value, which the guard
  \<open>if (!rawMatches) return []\<close> catches.
\<close>

definition Analytics_filteredMatches ::
  "RawFaceMatch list option \<Rightarrow> rat \<Rightarrow> rat \<Rightarrow> RawFaceMatch list" where
  "Analytics_filteredMatches rawMatches pendingMinIoU pendingMaxCenterDist =
     (case rawMatches of
        None \<Rightarrow> []
      | Some ms \<Rightarrow>
          filter (\<lambda>m. iou m \<ge> pendingMinIoU \<and> center_dist m \<le> pendingMaxCenterDist) ms)"

text \<open>
  The grouping key of \<open>aggregatedMatches\<close> is the template string
  \<open>`${match.ms_person_id}-${match.immich_cluster_id}`\<close>. An integer is rendered in
  decimal, with a leading minus sign when negative.
\<close>

definition digit_char :: "nat \<Rightarrow> char" where
  "digit_char d = ''0123456789'' ! d"

fun String_of_nat :: "nat \<Rightarrow> string" where
  "String_of_nat n =
     (if n < 10 then [digit_char n] else String_of_nat (n div 10) @ [digit_char (n mod 10)])"

declare String_of_nat.simps [simp del]

definition String_of_int :: "int \<Rightarrow> string" where
  "String_of_int i =
     (if i < 0 then CHR ''-'' # String_of_nat (nat (- i)) else String_of_nat (nat i))"

text \<open>
  The value kept per key in the \<open>Map\<close> of \<open>aggregatedMatches\<close>. The map is an
  association list in insertion order: \<open>AList.update\<close> replaces the value of a present
  key in place and appends an absent key at the end, as \<open>Map.set\<close> does; the in-place
  mutation of \<open>existing\<close> is the replacement of its entry.
\<close>

record PairAgg =
  agg_ms_person_name :: string
  agg_immich_cluster_name :: "string option"
  count :: nat
  avg_iou :: rat
  avg_center_dist :: rat

definition pair_key :: "RawFaceMatch \<Rightarrow> string" where
  "pair_key m = String_of_int (ms_person_id m) @ ''-'' @ immich_cluster_id m"

definition aggregate_step :: "(string \<times> PairAgg) list \<Rightarrow> RawFaceMatch \<Rightarrow> (string \<times> PairAgg) list" where
  "aggregate_step grouped match =
     (let key = pair_key match in
      case map_of grouped key of
        Some existing \<Rightarrow>
          (let c = count existing + 1 in
           AList.update key
             (existing\<lparr>count := c,
                avg_iou := (avg_iou existing * of_nat (c - 1) + iou match) / of_nat c,
                avg_center_dist :=
                  (avg_center_dist existing * of_nat (c - 1) + center_dist match) / of_nat c\<rparr>)
             grouped)
      | None \<Rightarrow>
          AList.update key
            \<lparr>agg_ms_person_name = ms_person_name match,
             agg_immich_cluster_name = immich_cluster_name match,
             count = 1,
             avg_iou = iou match,
             avg_center_dist = center_dist match\<rparr>
            grouped)"

definition grouped_map :: "RawFaceMatch list \<Rightarrow> (string \<times> PairAgg) list" where
  "grouped_map filtered = foldl aggregate_step [] filtered"

definition aggregatedMatches :: "RawFaceMatch list \<Rightarrow> PairAgg list" where
  "aggregatedMatches filtered = sort_key (\<lambda>a. - int (count a)) (map snd (grouped_map filtered))"

text \<open>
  \<open>confidenceBreakdown\<close>: two filters and a subtraction. The counts are JavaScript
  numbers, so \<open>low\<close> is an integer difference.
\<close>

datatype Confidence = High | Medium | Low

record ConfidenceBreakdown =
  high :: int
  medium :: int
  low :: int

definition confidenceBreakdown :: "PairAgg list \<Rightarrow> ConfidenceBreakdown" where
  "confidenceBreakdown aggregated =
     (let high = int (length (filter (\<lambda>m. count m \<ge> 5 \<and> avg_iou m \<ge> 4/10) aggregated));
          medium = int (length (filter
                     (\<lambda>m. count m \<ge> 2 \<and> avg_iou m \<ge> 35/100
                          \<and> \<not> (count m \<ge> 5 \<and> avg_iou m \<ge> 4/10)) aggregated));
          low = int (length aggregated) - high - medium
      in \<lparr>high = high, medium = medium, low = low\<rparr>)"

section \<open>JavaScript values, sets and the browser's storage\<close>

text \<open>
  What \<open>JSON.parse\<close> can return. Numbers are rationals (JSON has no NaN and no
  infinity). A missing property (\<open>undefined\<close>) is \<open>None\<close> of an option.
\<close>

datatype json =
    JNull
  | JBool bool
  | JNum rat
  | JStr string
  | JArr "json list"
  | JObj "(string \<times> json) list"

text \<open>What can be thrown: an \<open>Error\<close> object with its message, or any other value.\<close>

datatype thrown = ErrorObj string | OtherThrown

text \<open>\<open>e instanceof Error ? e.message : fallback\<close>\<close>

definition message_or :: "thrown \<Rightarrow> string \<Rightarrow> string" where
  "message_or e fallback = (case e of ErrorObj msg \<Rightarrow> msg | OtherThrown \<Rightarrow> fallback)"

fun truthy :: "json \<Rightarrow> bool" where
  "truthy JNull = False"
| "truthy (JBool b) = b"
| "truthy (JNum n) = (n \<noteq> 0)"
| "truthy (JStr s) = (s \<noteq> [])"
| "truthy (JArr xs) = True"
| "truthy (JObj kvs) = True"

text \<open>
  Reading a named property: a \<open>TypeError\<close> on \<open>null\<close>, the field of an object,
  \<open>undefined\<close> on a primitive or an array (for the property names used here).
\<close>

fun get_property :: "json \<Rightarrow> string \<Rightarrow> thrown + json option" where
  "get_property JNull k = Inl (ErrorObj ''TypeError'')"
| "get_property (JObj kvs) k = Inr (map_of kvs k)"
| "get_property v k = Inr None"

text \<open>\<open>v || []\<close>\<close>

definition or_empty_array :: "json option \<Rightarrow> json" where
  "or_empty_array v = (case v of None \<Rightarrow> JArr [] | Some j \<Rightarrow> if truthy j then j else JArr [])"

text \<open>\<open>v ?? d\<close>\<close>

definition nullish_or :: "json option \<Rightarrow> json \<Rightarrow> json" where
  "nullish_or v d = (case v of None \<Rightarrow> d | Some JNull \<Rightarrow> d | Some j \<Rightarrow> j)"

text \<open>
  A JavaScript \<open>Set\<close> is the list of its elements in insertion order, without
  repetition: \<open>add\<close> appends an absent element, \<open>Array.from\<close> and \<open>forEach\<close> read the
  list, \<open>new Set(iterable)\<close> adds the elements one after the other.
\<close>

definition Set_add :: "'a \<Rightarrow> 'a list \<Rightarrow> 'a list" where
  "Set_add v s = (if v \<in> set s then s else s @ [v])"

definition Set_delete :: "'a \<Rightarrow> 'a list \<Rightarrow> 'a list" where
  "Set_delete v s = filter (\<lambda>u. u \<noteq> v) s"

definition Set_has :: "'a list \<Rightarrow> 'a \<Rightarrow> bool" where
  "Set_has s v \<longleftrightarrow> v \<in> set s"

definition Set_of_list :: "'a list \<Rightarrow> 'a list" where
  "Set_of_list xs = foldl (\<lambda>s v. Set_add v s) [] xs"

text \<open>
  \<open>new Set(v)\<close> for a parsed value: an array gives its elements, a string its
  characters, anything else that reaches it is not iterable.
\<close>

fun new_Set :: "json \<Rightarrow> thrown + json list" where
  "new_Set (JArr xs) = Inr (Set_of_list xs)"
| "new_Set (JStr s) = Inr (Set_of_list (map (\<lambda>c. JStr [c]) s))"
| "new_Set v = Inl (ErrorObj ''TypeError'')"

text \<open>
  A string kept in \<open>localStorage\<close> is represented by what \<open>JSON.parse\<close> makes of it:
  the empty string, a text that is not JSON, or the text of a JSON value.
  \<open>JSON.stringify\<close> of a value is the text of that value.
\<close>

datatype stored = EmptyString | NotJSON | JSONText json

fun JSON_parse :: "stored \<Rightarrow> thrown + json" where
  "JSON_parse (JSONText j) = Inr j"
| "JSON_parse s = Inl (ErrorObj ''SyntaxError'')"

definition JSON_stringify :: "json \<Rightarrow> stored" where
  "JSON_stringify j = JSONText j"

text \<open>
  The storage itself: its items, and whether the browser refuses reads or writes
  (\<open>getItem\<close> and \<open>setItem\<close> then throw, which the helpers catch).
\<close>

record Storage =
  items :: "string \<Rightarrow> stored option"
  getItem_throws :: bool
  setItem_throws :: bool

definition getItem :: "Storage \<Rightarrow> string \<Rightarrow> thrown + stored option" where
  "getItem st k =
     (if getItem_throws st then Inl (ErrorObj ''SecurityError'') else Inr (items st k))"

definition setItem :: "Storage \<Rightarrow> string \<Rightarrow> stored \<Rightarrow> thrown + Storage" where
  "setItem st k v =
     (if setItem_throws st then Inl (ErrorObj ''QuotaExceededError'')
      else Inr (st\<lparr>items := (items st)(k \<mapsto> v)\<rparr>))"

definition try_bind :: "thrown + 'a \<Rightarrow> ('a \<Rightarrow> thrown + 'b) \<Rightarrow> thrown + 'b" where
  "try_bind r f = (case r of Inl e \<Rightarrow> Inl e | Inr v \<Rightarrow> f v)"

section \<open>Applied-changes bookkeeping and its persistence\<close>

text \<open>
  \<open>loadAppliedChanges\<close> and \<open>saveAppliedChanges\<close> have the same text in
  \<open>hooks/useAppliedChanges.ts\<close> and in the matching context; \<open>loadThresholds\<close> and
  \<open>saveThresholds\<close> are the context's. The sets hold whatever the stored arrays hold,
  so their elements are JSON values: a cluster id \<open>c\<close> is \<open>JStr c\<close>, a person id \<open>p\<close>
  is \<open>JNum (of_int p)\<close>. The \<open>_try\<close> functions are the bodies of the \<open>try\<close> blocks
  (\<open>Inr None\<close>: the block was left without \<open>return\<close>).
\<close>

record AppliedChanges =
  renamedClusters :: "json list"
  assignedPeople :: "json list"
  mergedPeople :: "json list"
  fixedClusters :: "json list"

definition STORAGE_KEY :: string where
  "STORAGE_KEY = ''migration-tool-applied-changes''"

definition THRESHOLDS_STORAGE_KEY :: string where
  "THRESHOLDS_STORAGE_KEY = ''migration-tool-thresholds''"

definition Set_of_property :: "json \<Rightarrow> string \<Rightarrow> thrown + json list" where
  "Set_of_property parsed k = try_bind (get_property parsed k) (\<lambda>v. new_Set (or_empty_array v))"

definition emptyChanges :: AppliedChanges where
  "emptyChanges =
     \<lparr>renamedClusters = [], assignedPeople = [], mergedPeople = [], fixedClusters = []\<rparr>"

definition loadAppliedChanges_try :: "Storage \<Rightarrow> thrown + AppliedChanges option" where
  "loadAppliedChanges_try st =
     try_bind (getItem st STORAGE_KEY) (\<lambda>stored.
       case stored of
         None \<Rightarrow> Inr None
       | Some EmptyString \<Rightarrow> Inr None
       | Some text \<Rightarrow>
           try_bind (JSON_parse text) (\<lambda>parsed.
           try_bind (Set_of_property parsed ''renamedClusters'') (\<lambda>rc.
           try_bind (Set_of_property parsed ''assignedPeople'') (\<lambda>ap.
           try_bind (Set_of_property parsed ''mergedPeople'') (\<lambda>mp.
           try_bind (Set_of_property parsed ''fixedClusters'') (\<lambda>fc.
             Inr (Some \<lparr>renamedClusters = rc, assignedPeople = ap,
                         mergedPeople = mp, fixedClusters = fc\<rparr>)))))))"

definition loadAppliedChanges :: "Storage \<Rightarrow> AppliedChanges" where
  "loadAppliedChanges st =
     (case loadAppliedChanges_try st of
        Inr (Some c) \<Rightarrow> c
      | Inr None \<Rightarrow> emptyChanges
      | Inl e \<Rightarrow> emptyChanges)"

definition saveAppliedChanges :: "AppliedChanges \<Rightarrow> Storage \<Rightarrow> Storage" where
  "saveAppliedChanges changes st =
     (let toStore = JObj [(''renamedClusters'', JArr (renamedClusters changes)),
                          (''assignedPeople'', JArr (assignedPeople changes)),
                          (''mergedPeople'', JArr (mergedPeople changes)),
                          (''fixedClusters'', JArr (fixedClusters changes))]
      in case setItem st STORAGE_KEY (JSON_stringify toStore) of
           Inr st' \<Rightarrow> st'
         | Inl e \<Rightarrow> st)"

record StoredThresholds =
  stored_minIoU :: json
  stored_maxCenterDist :: json

definition defaultThresholds :: StoredThresholds where
  "defaultThresholds = \<lparr>stored_minIoU = JNum (3/10), stored_maxCenterDist = JNum (4/10)\<rparr>"

definition loadThresholds_try :: "Storage \<Rightarrow> thrown + StoredThresholds option" where
  "loadThresholds_try st =
     try_bind (getItem st THRESHOLDS_STORAGE_KEY) (\<lambda>stored.
       case stored of
         None \<Rightarrow> Inr None
       | Some EmptyString \<Rightarrow> Inr None
       | Some text \<Rightarrow>
           try_bind (JSON_parse text) (\<lambda>parsed.
           try_bind (get_property parsed ''minIoU'') (\<lambda>a.
           try_bind (get_property parsed ''maxCenterDist'') (\<lambda>b.
             Inr (Some \<lparr>stored_minIoU = nullish_or a (JNum (3/10)),
                         stored_maxCenterDist = nullish_or b (JNum (4/10))\<rparr>)))))"

definition loadThresholds :: "Storage \<Rightarrow> StoredThresholds" where
  "loadThresholds st =
     (case loadThresholds_try st of
        Inr (Some t) \<Rightarrow> t
      | Inr None \<Rightarrow> defaultThresholds
      | Inl e \<Rightarrow> defaultThresholds)"


section \<open>Data received from the analysis endpoint\<close>

text \<open>
  The interfaces of \<open>types.ts\<close> that the modelled components read. Field names shared
  by several interfaces carry a prefix naming the interface (\<open>pm_\<close> for
  \<open>PersonMatch\<close>, \<open>uf_\<close> for \<open>UnclusteredFacePreview\<close>, \<open>pa_\<close> for
  \<open>PersonApplyPreview\<close>, \<open>ci_\<close> for \<open>ClusterIssue\<close>, \<open>mci_\<close> and \<open>mc_\<close> for
  \<open>MergeClusterInfo\<close> and \<open>MergeCandidate\<close>, \<open>ur_\<close> and \<open>up_\<close> for the unrecognized
  face and person previews). Histograms, percentiles, suggested thresholds and cumulative
  curves are passed through untouched and stay JSON values.
\<close>

record PersonMatch =
  pm_ms_person_id :: int
  pm_ms_person_name :: string
  pm_immich_cluster_id :: string
  pm_immich_cluster_name :: "string option"
  pm_face_matches :: int
  pm_avg_iou :: rat
  pm_avg_center_dist :: rat
  pm_confidence :: Confidence
  pm_sample_photos :: "string list"

record UnclusteredFacePreview =
  uf_immich_face_id :: string
  uf_immich_asset_id :: string
  uf_filename :: string
  uf_iou :: rat
  uf_center_dist :: rat
  uf_ms_rect_x1 :: "rat option"
  uf_ms_rect_y1 :: "rat option"
  uf_ms_rect_x2 :: "rat option"
  uf_ms_rect_y2 :: "rat option"
  uf_immich_rect_x1 :: "rat option"
  uf_immich_rect_y1 :: "rat option"
  uf_immich_rect_x2 :: "rat option"
  uf_immich_rect_y2 :: "rat option"

record PersonApplyPreview =
  pa_ms_person_id :: int
  pa_ms_person_name :: string
  pa_existing_immich_person_id :: "string option"
  pa_existing_immich_person_name :: "string option"
  pa_needs_person_creation :: bool
  pa_face_count :: int
  pa_total_faces_in_ms_photos :: int
  pa_avg_iou :: rat
  pa_faces :: "UnclusteredFacePreview list"
  pa_sample_filenames :: "string list"

datatype Severity = Severity_error | Severity_warning | Severity_ok

record ClusterIssue =
  ci_immich_cluster_id :: string
  ci_immich_cluster_name :: "string option"
  ci_total_faces_in_cluster :: int
  ci_matched_faces :: int
  ci_ms_people_matched :: "(int \<times> string \<times> int) list"
  ci_severity :: Severity
  ci_sample_photos :: "string list"

record MergeClusterInfo =
  mci_cluster_id :: string
  mci_cluster_name :: "string option"
  mci_matched_faces :: int
  mci_total_faces :: int

record MergeCandidate =
  mc_ms_person_id :: int
  mc_ms_person_name :: string
  mc_total_ms_faces :: int
  mc_immich_clusters :: "MergeClusterInfo list"
  mc_confidence :: rat

record UnrecognizedFacePreview =
  ur_immich_asset_id :: string
  ur_filename :: string
  ms_rect_x1 :: rat
  ms_rect_y1 :: rat
  ms_rect_x2 :: rat
  ms_rect_y2 :: rat
  image_width :: int
  image_height :: int

record UnrecognizedPersonPreview =
  up_ms_person_id :: int
  up_ms_person_name :: string
  up_existing_immich_person_id :: "string option"
  up_existing_immich_person_name :: "string option"
  up_needs_person_creation :: bool
  up_face_count :: int
  up_total_faces_in_ms_photos :: int
  up_faces :: "UnrecognizedFacePreview list"
  up_sample_filenames :: "string list"



section \<open>Requests to the backend\<close>

text \<open>
  Every remote call of the modelled code goes through one of these four functions of
  \<open>api.ts\<close>; a call is recorded with its parameters. A call either returns the parsed
  response or throws (\<open>fetchAPI\<close> throws an \<open>Error\<close> when the response is not ok).
\<close>

record ApplyMatchItem =
  am_ms_person_id :: int
  am_ms_person_name :: string
  am_immich_cluster_id :: string

record ApplyUnclusteredItem =
  au_ms_person_id :: int
  au_ms_person_name :: string
  au_face_ids :: "string list"

record CreateFaceItem =
  asset_id :: string
  face_x :: int
  face_y :: int
  face_width :: int
  face_height :: int
  face_image_width :: int
  face_image_height :: int

datatype Request =
    RunFullAnalysis rat rat
  | ApplyMatches "ApplyMatchItem list" bool
  | ApplyUnclusteredFaces "ApplyUnclusteredItem list" bool
  | CreateFaces int string "CreateFaceItem list" bool

section \<open>The matching context\<close>

record Stats =
  totalRawMatches :: int
  commonPhotos :: int
  msPeopleCount :: int
  immichClustersCount :: int
  totalMatches :: int
  stats_applicableMatches :: int
  highConfidence :: int
  mediumConfidence :: int
  lowConfidence :: int
  totalUnclusteredFaces :: int
  peopleWithUnclusteredMatches :: int
  clustersWithIssues :: int
  validationErrors :: int
  validationWarnings :: int
  peopleWithSplitClusters :: int
  totalClustersToMerge :: int

text \<open>\<open>lastRun\<close> is a time stamp or \<open>null\<close>.\<close>

record MatchingState =
  loading :: bool
  algorithmRunning :: bool
  lastRun :: "nat option"
  error :: "string option"
  rawMatches :: "RawFaceMatch list"
  histograms :: "json option"
  percentiles :: "json option"
  suggestedThresholds :: "json option"
  cumulative :: "json option"
  clusterMatches :: "PersonMatch list"
  applicableMatches :: "PersonMatch list"
  unclusteredPreviews :: "PersonApplyPreview list"
  validationIssues :: "ClusterIssue list"
  mergeCandidates :: "MergeCandidate list"
  stats :: "Stats option"
  minIoU :: rat
  maxCenterDist :: rat
  pendingMinIoU :: rat
  pendingMaxCenterDist :: rat
  thresholdsDirty :: bool
  appliedChanges :: AppliedChanges

text \<open>
  What the code can change: the context's state, the browser's storage and the backend,
  the latter seen through the list of requests sent to it. Component states extend
  this record, so that the context's actions apply to them and leave the rest alone.
\<close>

record World =
  matching :: MatchingState
  localStorage :: Storage
  requests :: "Request list"








text \<open>
  The four marking actions. \<open>saveAppliedChanges\<close> is called inside the updater, on the
  new value.
\<close>

definition markClusterRenamed :: "string \<Rightarrow> 'a World_scheme \<Rightarrow> 'a World_scheme" where
  "markClusterRenamed clusterId w =
     (let prev = matching w;
          newChanges = (appliedChanges prev)\<lparr>renamedClusters :=
             Set_of_list (renamedClusters (appliedChanges prev) @ [JStr clusterId])\<rparr>
      in w\<lparr>matching := prev\<lparr>appliedChanges := newChanges\<rparr>,
           localStorage := saveAppliedChanges newChanges (localStorage w)\<rparr>)"


definition markClustersMerged :: "int \<Rightarrow> 'a World_scheme \<Rightarrow> 'a World_scheme" where
  "markClustersMerged personId w =
     (let prev = matching w;
          newChanges = (appliedChanges prev)\<lparr>mergedPeople :=
             Set_of_list (mergedPeople (appliedChanges prev) @ [JNum (of_int personId)])\<rparr>
      in w\<lparr>matching := prev\<lparr>appliedChanges := newChanges\<rparr>,
           localStorage := saveAppliedChanges newChanges (localStorage w)\<rparr>)"

definition markClusterFixed :: "string \<Rightarrow> 'a World_scheme \<Rightarrow> 'a World_scheme" where
  "markClusterFixed clusterId w =
     (let prev = matching w;
          newChanges = (appliedChanges prev)\<lparr>fixedClusters :=
             Set_of_list (fixedClusters (appliedChanges prev) @ [JStr clusterId])\<rparr>
      in w\<lparr>matching := prev\<lparr>appliedChanges := newChanges\<rparr>,
           localStorage := saveAppliedChanges newChanges (localStorage w)\<rparr>)"

text \<open>
  The state the provider starts with, from the stored thresholds and the stored
  bookkeeping.
\<close>

definition initialState :: "rat \<Rightarrow> rat \<Rightarrow> AppliedChanges \<Rightarrow> MatchingState" where
  "initialState storedMinIoU storedMaxCenterDist storedChanges =
     \<lparr>loading = False, algorithmRunning = False, lastRun = None, error = None,
      rawMatches = [], histograms = None, percentiles = None, suggestedThresholds = None,
      cumulative = None, clusterMatches = [], applicableMatches = [],
      unclusteredPreviews = [], validationIssues = [], mergeCandidates = [], stats = None,
      minIoU = storedMinIoU, maxCenterDist = storedMaxCenterDist,
      pendingMinIoU = storedMinIoU, pendingMaxCenterDist = storedMaxCenterDist,
      thresholdsDirty = False, appliedChanges = storedChanges\<rparr>"

section \<open>Merge Clusters and Fix Issues tabs\<close>

text \<open>
  The state of each component is the world and the component's own \<open>useState\<close>
  values. Marking calls the context's action and updates the selection.
\<close>

datatype MergeFilterMode = Merge_all | Merge_pending | Merge_applied

record MergeClustersState = World +
  merge_filterMode :: MergeFilterMode
  merge_expandedRows :: "int list"
  merge_selectedIds :: "int list"

definition markAsMerged :: "int \<Rightarrow> MergeClustersState \<Rightarrow> MergeClustersState" where
  "markAsMerged personId s =
     (let s1 = markClustersMerged personId s
      in s1\<lparr>merge_selectedIds := Set_delete personId (merge_selectedIds s1)\<rparr>)"

definition markSelectedAsMerged :: "MergeClustersState \<Rightarrow> MergeClustersState" where
  "markSelectedAsMerged s =
     (let s1 = foldl (\<lambda>w personId. markClustersMerged personId w) s (merge_selectedIds s)
      in s1\<lparr>merge_selectedIds := []\<rparr>)"

datatype FixFilterMode = Fix_all | Fix_errors | Fix_warnings | Fix_fixed

record FixIssuesState = World +
  fix_filterMode :: FixFilterMode
  fix_expandedRows :: "string list"
  fix_selectedIds :: "string list"

definition markAsFixed :: "string \<Rightarrow> FixIssuesState \<Rightarrow> FixIssuesState" where
  "markAsFixed clusterId s =
     (let s1 = markClusterFixed clusterId s
      in s1\<lparr>fix_selectedIds := Set_delete clusterId (fix_selectedIds s1)\<rparr>)"

definition markSelectedAsFixed :: "FixIssuesState \<Rightarrow> FixIssuesState" where
  "markSelectedAsFixed s =
     (let s1 = foldl (\<lambda>w clusterId. markClusterFixed clusterId w) s (fix_selectedIds s)
      in s1\<lparr>fix_selectedIds := []\<rparr>)"

section \<open>Progress records and backend responses\<close>

datatype Status = Pending | Processing | Success | Error

datatype ItemId = IdString string | IdNumber int

record ProgressItem =
  item_id :: ItemId
  item_name :: string
  item_status :: Status
  item_error :: "string option"

text \<open>\<open>prev.map((item, idx) => idx === i ? f(item) : item)\<close>\<close>

definition update_item ::
  "nat \<Rightarrow> (ProgressItem \<Rightarrow> ProgressItem) \<Rightarrow> ProgressItem list \<Rightarrow> ProgressItem list" where
  "update_item i f prev = map (\<lambda>(idx, item). if idx = i then f item else item) (enumerate 0 prev)"

record FailedEntry =
  failed_id :: "string option"
  failed_name :: "string option"
  failed_error :: string

record ApplyResult =
  ar_dry_run :: bool
  ar_total :: int
  ar_success_count :: int
  ar_failed_count :: int
  ar_results_success :: "(string \<times> string \<times> string) list"
  ar_results_failed :: "FailedEntry list"
  ar_results_skipped :: "(string \<times> string \<times> string) list"

text \<open>\<open>failed[0]?.error || fallback\<close>\<close>

definition first_error_or :: "FailedEntry list \<Rightarrow> string \<Rightarrow> string" where
  "first_error_or failed fallback =
     (case failed of
        [] \<Rightarrow> fallback
      | f # _ \<Rightarrow> if failed_error f = [] then fallback else failed_error f)"

text \<open>
  \<open>Array.prototype.sort\<close> with a comparator: a stable sort. The comparator's result is a
  number; it is taken as given, the locale's string comparison being a parameter.
\<close>

fun insert_sorted :: "('a \<Rightarrow> 'a \<Rightarrow> rat) \<Rightarrow> 'a \<Rightarrow> 'a list \<Rightarrow> 'a list" where
  "insert_sorted cmp v [] = [v]"
| "insert_sorted cmp v (u # us) =
     (if cmp v u \<le> 0 then v # u # us else u # insert_sorted cmp v us)"

definition Array_sort :: "('a \<Rightarrow> 'a \<Rightarrow> rat) \<Rightarrow> 'a list \<Rightarrow> 'a list" where
  "Array_sort cmp vs = foldr (insert_sorted cmp) vs []"

section \<open>Transfer Names tab\<close>

datatype TransferFilterMode =
  Transfer_all | Transfer_applicable | Transfer_already_named | Transfer_applied

datatype ConfidenceFilter = Confidence_all | Confidence_is Confidence

datatype TransferSortField = Sort_name | Sort_matches | Sort_avg_iou | Sort_confidence

datatype SortDirection = Asc | Desc

record TransferNamesState = World +
  tn_filterMode :: TransferFilterMode
  tn_confidenceFilter :: ConfidenceFilter
  tn_sortField :: TransferSortField
  tn_sortDirection :: SortDirection
  tn_selectedIds :: "string list"
  tn_expandedRows :: "string list"
  tn_applyingId :: "string option"
  tn_bulkApplying :: bool
  tn_applyError :: "string option"
  tn_progressItems :: "ProgressItem list"
  tn_progressIndex :: nat
  tn_showProgress :: bool
  tn_cancelRef :: bool

text \<open>\<open>!!match.immich_cluster_name\<close>: the name is neither \<open>null\<close> nor empty.\<close>

definition isAlreadyNamed :: "PersonMatch \<Rightarrow> bool" where
  "isAlreadyNamed m =
     (case pm_immich_cluster_name m of None \<Rightarrow> False | Some n \<Rightarrow> n \<noteq> [])"

definition isApplied :: "AppliedChanges \<Rightarrow> PersonMatch \<Rightarrow> bool" where
  "isApplied changes m = Set_has (renamedClusters changes) (JStr (pm_immich_cluster_id m))"

definition confidence_order :: "Confidence \<Rightarrow> rat" where
  "confidence_order c = (case c of High \<Rightarrow> 3 | Medium \<Rightarrow> 2 | Low \<Rightarrow> 1)"

definition transfer_compare ::
  "(string \<Rightarrow> string \<Rightarrow> rat) \<Rightarrow> TransferSortField \<Rightarrow> SortDirection
     \<Rightarrow> PersonMatch \<Rightarrow> PersonMatch \<Rightarrow> rat" where
  "transfer_compare localeCompare sortField sortDirection a b =
     (let cmp = (case sortField of
                   Sort_name \<Rightarrow> localeCompare (pm_ms_person_name a) (pm_ms_person_name b)
                 | Sort_matches \<Rightarrow> of_int (pm_face_matches a - pm_face_matches b)
                 | Sort_avg_iou \<Rightarrow> pm_avg_iou a - pm_avg_iou b
                 | Sort_confidence \<Rightarrow>
                     confidence_order (pm_confidence a) - confidence_order (pm_confidence b))
      in if sortDirection = Desc then - cmp else cmp)"

text \<open>\<open>filteredMatches\<close> of the Transfer Names component.\<close>

definition TransferNames_filteredMatches ::
  "(string \<Rightarrow> string \<Rightarrow> rat) \<Rightarrow> TransferNamesState \<Rightarrow> PersonMatch list" where
  "TransferNames_filteredMatches localeCompare s =
     (let changes = appliedChanges (matching s);
          filtered = filter (\<lambda>m.
             case tn_filterMode s of
               Transfer_applicable \<Rightarrow> \<not> isAlreadyNamed m \<and> \<not> isApplied changes m
             | Transfer_already_named \<Rightarrow> isAlreadyNamed m
             | Transfer_applied \<Rightarrow> isApplied changes m
             | Transfer_all \<Rightarrow> True) (clusterMatches (matching s));
          filtered' = (case tn_confidenceFilter s of
                         Confidence_all \<Rightarrow> filtered
                       | Confidence_is c \<Rightarrow> filter (\<lambda>m. pm_confidence m = c) filtered)
      in Array_sort (transfer_compare localeCompare (tn_sortField s) (tn_sortDirection s)) filtered')"

definition selectAll :: "(string \<Rightarrow> string \<Rightarrow> rat) \<Rightarrow> TransferNamesState \<Rightarrow> TransferNamesState" where
  "selectAll localeCompare s =
     (let ids = map pm_immich_cluster_id
                  (filter (\<lambda>m. \<not> isApplied (appliedChanges (matching s)) m \<and> \<not> isAlreadyNamed m)
                     (TransferNames_filteredMatches localeCompare s))
      in s\<lparr>tn_selectedIds := Set_of_list ids\<rparr>)"

text \<open>The request of one match, as \<open>applySingle\<close> and \<open>applySelected\<close> build it.\<close>

definition rename_request :: "PersonMatch \<Rightarrow> Request" where
  "rename_request match =
     ApplyMatches
       [\<lparr>am_ms_person_id = pm_ms_person_id match,
         am_ms_person_name = pm_ms_person_name match,
         am_immich_cluster_id = pm_immich_cluster_id match\<rparr>]
       False"

text \<open>
  \<open>applySingle\<close>; \<open>response\<close> is what the awaited call does. The Apply button of a row
  exists only when \<open>canApply\<close> holds for the row.
\<close>

definition TransferNames_applySingle ::
  "(thrown + ApplyResult) \<Rightarrow> PersonMatch \<Rightarrow> TransferNamesState \<Rightarrow> TransferNamesState" where
  "TransferNames_applySingle response match s =
     (let s1 = s\<lparr>tn_applyingId := Some (pm_immich_cluster_id match), tn_applyError := None\<rparr>;
          s2 = s1\<lparr>requests := requests s1 @ [rename_request match]\<rparr>;
          s3 = (case response of
                  Inr result \<Rightarrow>
                    if ar_success_count result > 0 then
                      (let a = markClusterRenamed (pm_immich_cluster_id match) s2
                       in a\<lparr>tn_selectedIds :=
                             Set_delete (pm_immich_cluster_id match) (tn_selectedIds a)\<rparr>)
                    else if ar_failed_count result > 0 then
                      s2\<lparr>tn_applyError :=
                           Some (first_error_or (ar_results_failed result) ''Failed to apply'')\<rparr>
                    else s2
                | Inl err \<Rightarrow> s2\<lparr>tn_applyError := Some (message_or err ''Failed to apply'')\<rparr>)
      in s3\<lparr>tn_applyingId := None\<rparr>)"

definition canApply :: "AppliedChanges \<Rightarrow> PersonMatch \<Rightarrow> bool" where
  "canApply changes match \<longleftrightarrow> \<not> isApplied changes match \<and> \<not> isAlreadyNamed match"

definition Apply_button_click ::
  "(thrown + ApplyResult) \<Rightarrow> PersonMatch \<Rightarrow> TransferNamesState \<Rightarrow> TransferNamesState" where
  "Apply_button_click response match s =
     (if canApply (appliedChanges (matching s)) match
      then TransferNames_applySingle response match s else s)"

text \<open>
  \<open>handleCancelProgress\<close>, and the bulk path. \<open>respond i\<close> is what the call for item
  \<open>i\<close> does, \<open>cancel i\<close> tells whether the user presses Cancel while that call is
  awaited (the only point of the loop where other code can run).
\<close>

definition TransferNames_handleCancelProgress :: "TransferNamesState \<Rightarrow> TransferNamesState" where
  "TransferNames_handleCancelProgress s =
     (let s1 = (if tn_bulkApplying s then s\<lparr>tn_cancelRef := True\<rparr> else s)
      in s1\<lparr>tn_showProgress := False\<rparr>)"

definition matchesToApply :: "(string \<Rightarrow> string \<Rightarrow> rat) \<Rightarrow> TransferNamesState \<Rightarrow> PersonMatch list" where
  "matchesToApply localeCompare s =
     filter (\<lambda>m. Set_has (tn_selectedIds s) (pm_immich_cluster_id m)
                \<and> \<not> isApplied (appliedChanges (matching s)) m
                \<and> \<not> isAlreadyNamed m)
       (TransferNames_filteredMatches localeCompare s)"

definition rename_item ::
  "nat \<Rightarrow> PersonMatch \<Rightarrow> (thrown + ApplyResult) \<Rightarrow> bool \<Rightarrow> TransferNamesState \<Rightarrow> TransferNamesState" where
  "rename_item i match response cancelled s =
     (let s1 = s\<lparr>tn_progressIndex := i\<rparr>;
          s2 = s1\<lparr>tn_progressItems :=
                    update_item i (\<lambda>item. item\<lparr>item_status := Processing\<rparr>) (tn_progressItems s1)\<rparr>;
          s3 = s2\<lparr>requests := requests s2 @ [rename_request match]\<rparr>;
          s4 = (if cancelled then TransferNames_handleCancelProgress s3 else s3)
      in case response of
           Inr result \<Rightarrow>
             if ar_success_count result > 0 then
               (let a = markClusterRenamed (pm_immich_cluster_id match) s4;
                    b = a\<lparr>tn_selectedIds :=
                           Set_delete (pm_immich_cluster_id match) (tn_selectedIds a)\<rparr>
                in b\<lparr>tn_progressItems :=
                       update_item i (\<lambda>item. item\<lparr>item_status := Success\<rparr>) (tn_progressItems b)\<rparr>)
             else
               s4\<lparr>tn_progressItems :=
                    update_item i
                      (\<lambda>item. item\<lparr>item_status := Error,
                                    item_error := Some (first_error_or (ar_results_failed result) ''Failed'')\<rparr>)
                      (tn_progressItems s4)\<rparr>
         | Inl err \<Rightarrow>
             s4\<lparr>tn_progressItems :=
                  update_item i
                    (\<lambda>item. item\<lparr>item_status := Error, item_error := Some (message_or err ''Failed'')\<rparr>)
                    (tn_progressItems s4)\<rparr>)"

fun rename_loop ::
  "(nat \<Rightarrow> thrown + ApplyResult) \<Rightarrow> (nat \<Rightarrow> bool) \<Rightarrow> nat \<Rightarrow> PersonMatch list
     \<Rightarrow> TransferNamesState \<Rightarrow> TransferNamesState" where
  "rename_loop respond cancel i [] s = s"
| "rename_loop respond cancel i (match # rest) s =
     (if tn_cancelRef s then s
      else rename_loop respond cancel (i + 1) rest (rename_item i match (respond i) (cancel i) s))"

definition TransferNames_applySelected ::
  "(string \<Rightarrow> string \<Rightarrow> rat) \<Rightarrow> (nat \<Rightarrow> thrown + ApplyResult) \<Rightarrow> (nat \<Rightarrow> bool)
     \<Rightarrow> TransferNamesState \<Rightarrow> TransferNamesState" where
  "TransferNames_applySelected localeCompare respond cancel s =
     (let toApply = matchesToApply localeCompare s
      in if length toApply = 0 then s
         else
           (let s1 = s\<lparr>tn_cancelRef := False,
                       tn_progressItems :=
                         map (\<lambda>m. \<lparr>item_id = IdString (pm_immich_cluster_id m),
                                    item_name = pm_ms_person_name m,
                                    item_status = Pending, item_error = None\<rparr>) toApply,
                       tn_progressIndex := 0,
                       tn_showProgress := True,
                       tn_bulkApplying := True,
                       tn_applyError := None\<rparr>;
                s2 = rename_loop respond cancel 0 toApply s1
            in s2\<lparr>tn_bulkApplying := False\<rparr>))"

section \<open>Assign Faces tab\<close>


datatype PreviewFilterMode =
  Preview_all | Preview_needs_creation | Preview_exists | Preview_applied













text \<open>\<open>lastError || fallback\<close>\<close>

definition error_or :: "string option \<Rightarrow> string \<Rightarrow> string" where
  "error_or lastError fallback =
     (case lastError of None \<Rightarrow> fallback | Some e \<Rightarrow> if e = [] then fallback else e)"






section \<open>Create Faces tab\<close>

record CreateFacesResult =
  cfr_dry_run :: bool
  cfr_success :: bool
  cfr_total_faces :: int
  cfr_faces_created_count :: int
  cfr_failed_count :: int
  cfr_error :: "string option"
  cfr_results_person_created :: "(string \<times> string \<times> string option) option"
  cfr_results_faces_created :: "(string \<times> string) list"
  cfr_results_failed :: "(string \<times> string) list"

datatype CreateSortField = Create_name | Create_faces | Create_total

record CreateFacesState = World +
  cf_previews :: "UnrecognizedPersonPreview list"
  cf_stats :: "json option"
  cf_loading :: bool
  cf_error :: "string option"
  cf_filterMode :: PreviewFilterMode
  cf_sortField :: CreateSortField
  cf_sortDirection :: SortDirection
  cf_selectedIds :: "int list"
  cf_expandedRows :: "int list"
  cf_appliedIds :: "int list"
  cf_applyingId :: "int option"
  cf_bulkApplying :: bool
  cf_applyError :: "string option"
  cf_applySuccess :: "string option"
  cf_faceSelections :: "(int \<times> string list) list"
  cf_progressItems :: "ProgressItem list"
  cf_progressIndex :: nat
  cf_showProgress :: bool
  cf_subProgress :: "(nat \<times> nat) option"
  cf_cancelRef :: bool

text \<open>\<open>Math.round\<close>: the nearest integer, a half going up.\<close>

definition Math_round :: "rat \<Rightarrow> int" where
  "Math_round v = \<lfloor>v + 1/2\<rfloor>"

record PixelRect =
  rect_x :: int
  rect_y :: int
  rect_width :: int
  rect_height :: int

definition rectToPixels :: "UnrecognizedFacePreview \<Rightarrow> PixelRect" where
  "rectToPixels face =
     \<lparr>rect_x = Math_round (ms_rect_x1 face * of_int (image_width face)),
      rect_y = Math_round (ms_rect_y1 face * of_int (image_height face)),
      rect_width = Math_round ((ms_rect_x2 face - ms_rect_x1 face) * of_int (image_width face)),
      rect_height = Math_round ((ms_rect_y2 face - ms_rect_y1 face) * of_int (image_height face))\<rparr>"

text \<open>
  The item \<open>{asset_id: f.immich_asset_id, ...rectToPixels(f), image_width: f.image_width,
  image_height: f.image_height}\<close> that both \<open>applySingle\<close> and \<open>applySelected\<close> build.
\<close>

definition create_item :: "UnrecognizedFacePreview \<Rightarrow> CreateFaceItem" where
  "create_item f =
     \<lparr>asset_id = ur_immich_asset_id f,
      face_x = rect_x (rectToPixels f),
      face_y = rect_y (rectToPixels f),
      face_width = rect_width (rectToPixels f),
      face_height = rect_height (rectToPixels f),
      face_image_width = image_width f,
      face_image_height = image_height f\<rparr>"

definition getFaceId :: "UnrecognizedFacePreview \<Rightarrow> nat \<Rightarrow> string" where
  "getFaceId face index = ur_immich_asset_id face @ ''-'' @ String_of_nat index"

definition CreateFaces_getSelectedFaces ::
  "(int \<times> string list) list \<Rightarrow> UnrecognizedPersonPreview \<Rightarrow> string list" where
  "CreateFaces_getSelectedFaces faceSelections preview =
     (case map_of faceSelections (up_ms_person_id preview) of
        Some selected \<Rightarrow> selected
      | None \<Rightarrow> Set_of_list (map (\<lambda>(i, f). getFaceId f i) (enumerate 0 (up_faces preview))))"

definition CreateFaces_getSelectedFaceCount ::
  "(int \<times> string list) list \<Rightarrow> UnrecognizedPersonPreview \<Rightarrow> nat" where
  "CreateFaces_getSelectedFaceCount faceSelections preview =
     length (CreateFaces_getSelectedFaces faceSelections preview)"

definition create_compare ::
  "(string \<Rightarrow> string \<Rightarrow> rat) \<Rightarrow> CreateSortField \<Rightarrow> SortDirection
     \<Rightarrow> UnrecognizedPersonPreview \<Rightarrow> UnrecognizedPersonPreview \<Rightarrow> rat" where
  "create_compare localeCompare sortField sortDirection a b =
     (let cmp = (case sortField of
                   Create_name \<Rightarrow> localeCompare (up_ms_person_name a) (up_ms_person_name b)
                 | Create_faces \<Rightarrow> of_int (up_face_count a - up_face_count b)
                 | Create_total \<Rightarrow>
                     of_int (up_total_faces_in_ms_photos a - up_total_faces_in_ms_photos b))
      in if sortDirection = Desc then - cmp else cmp)"

definition CreateFaces_filteredPreviews ::
  "(string \<Rightarrow> string \<Rightarrow> rat) \<Rightarrow> CreateFacesState \<Rightarrow> UnrecognizedPersonPreview list" where
  "CreateFaces_filteredPreviews localeCompare s =
     (let filtered = filter (\<lambda>preview.
             let isApplied = Set_has (cf_appliedIds s) (up_ms_person_id preview);
                 needsCreation = up_needs_person_creation preview
             in case cf_filterMode s of
                  Preview_needs_creation \<Rightarrow> needsCreation \<and> \<not> isApplied
                | Preview_exists \<Rightarrow> \<not> needsCreation \<and> \<not> isApplied
                | Preview_applied \<Rightarrow> isApplied
                | Preview_all \<Rightarrow> \<not> isApplied) (cf_previews s)
      in Array_sort (create_compare localeCompare (cf_sortField s) (cf_sortDirection s)) filtered)"

definition CreateFaces_handleCancelProgress :: "CreateFacesState \<Rightarrow> CreateFacesState" where
  "CreateFaces_handleCancelProgress s =
     (let s1 = (if cf_bulkApplying s then s\<lparr>cf_cancelRef := True\<rparr> else s)
      in s1\<lparr>cf_showProgress := False\<rparr>)"


text \<open>The request for one face of a person, and one turn of the loop over the faces.\<close>

definition create_request :: "UnrecognizedPersonPreview \<Rightarrow> UnrecognizedFacePreview \<Rightarrow> Request" where
  "create_request preview face =
     CreateFaces (up_ms_person_id preview) (up_ms_person_name preview) [create_item face] False"

definition create_face ::
  "UnrecognizedPersonPreview \<Rightarrow> nat \<Rightarrow> nat \<Rightarrow> UnrecognizedFacePreview
     \<Rightarrow> (thrown + CreateFacesResult) \<Rightarrow> bool
     \<Rightarrow> CreateFacesState \<times> nat \<times> string option
     \<Rightarrow> CreateFacesState \<times> nat \<times> string option" where
  "create_face preview totalFaces faceIdx face response cancelled acc =
     (let s = fst acc; successCount = fst (snd acc); lastError = snd (snd acc);
          s1 = s\<lparr>cf_subProgress := Some (faceIdx + 1, totalFaces)\<rparr>;
          s2 = s1\<lparr>requests := requests s1 @ [create_request preview face]\<rparr>;
          s3 = (if cancelled then CreateFaces_handleCancelProgress s2 else s2)
      in case response of
           Inr result \<Rightarrow>
             if cfr_success result then (s3, successCount + 1, lastError)
             else (s3, successCount, Some (error_or (cfr_error result) ''Failed''))
         | Inl err \<Rightarrow> (s3, successCount, Some (message_or err ''Failed'')))"

fun create_faces_loop ::
  "(nat \<Rightarrow> nat \<Rightarrow> thrown + CreateFacesResult) \<Rightarrow> (nat \<Rightarrow> nat \<Rightarrow> bool)
     \<Rightarrow> nat \<Rightarrow> UnrecognizedPersonPreview \<Rightarrow> nat \<Rightarrow> nat \<Rightarrow> UnrecognizedFacePreview list
     \<Rightarrow> CreateFacesState \<times> nat \<times> string option
     \<Rightarrow> CreateFacesState \<times> nat \<times> string option" where
  "create_faces_loop respond cancel i preview totalFaces faceIdx [] acc = acc"
| "create_faces_loop respond cancel i preview totalFaces faceIdx (face # rest) acc =
     (if cf_cancelRef (fst acc) then acc
      else create_faces_loop respond cancel i preview totalFaces (faceIdx + 1) rest
             (create_face preview totalFaces faceIdx face (respond i faceIdx) (cancel i faceIdx) acc))"

definition CreateFaces_facesToApply ::
  "(int \<times> string list) list \<Rightarrow> UnrecognizedPersonPreview \<Rightarrow> UnrecognizedFacePreview list" where
  "CreateFaces_facesToApply faceSelections preview =
     (let selectedFaceIds = CreateFaces_getSelectedFaces faceSelections preview
      in map snd (filter (\<lambda>(idx, f). Set_has selectedFaceIds (getFaceId f idx))
                    (enumerate 0 (up_faces preview))))"

definition create_person ::
  "(nat \<Rightarrow> nat \<Rightarrow> thrown + CreateFacesResult) \<Rightarrow> (nat \<Rightarrow> nat \<Rightarrow> bool)
     \<Rightarrow> (int \<times> string list) list \<Rightarrow> nat \<Rightarrow> UnrecognizedPersonPreview
     \<Rightarrow> CreateFacesState \<Rightarrow> CreateFacesState" where
  "create_person respond cancel faceSelections i preview s =
     (let facesToApply = CreateFaces_facesToApply faceSelections preview
      in if length facesToApply = 0 then
           s\<lparr>cf_progressItems :=
               update_item i (\<lambda>item. item\<lparr>item_status := Success\<rparr>) (cf_progressItems s)\<rparr>
         else
           (let s1 = s\<lparr>cf_progressIndex := i\<rparr>;
                s2 = s1\<lparr>cf_progressItems :=
                          update_item i (\<lambda>item. item\<lparr>item_status := Processing\<rparr>)
                            (cf_progressItems s1)\<rparr>;
                looped = create_faces_loop respond cancel i preview (length facesToApply) 0
                           facesToApply (s2, 0, None);
                s3 = fst looped;
                successCount = fst (snd looped);
                lastError = snd (snd looped);
                s4 = s3\<lparr>cf_subProgress := None\<rparr>;
                s5 = (if successCount > 0 then
                        s4\<lparr>cf_appliedIds := Set_add (up_ms_person_id preview) (cf_appliedIds s4),
                           cf_selectedIds := Set_delete (up_ms_person_id preview) (cf_selectedIds s4),
                           cf_faceSelections :=
                             AList.delete (up_ms_person_id preview) (cf_faceSelections s4)\<rparr>
                      else s4)
            in if successCount = length facesToApply then
                 s5\<lparr>cf_progressItems :=
                      update_item i (\<lambda>item. item\<lparr>item_status := Success\<rparr>) (cf_progressItems s5)\<rparr>
               else if successCount > 0 then
                 s5\<lparr>cf_progressItems :=
                      update_item i
                        (\<lambda>item. item\<lparr>item_status := Success,
                                      item_name := up_ms_person_name preview @ '' ('' @
                                        String_of_nat successCount @ ''/'' @
                                        String_of_nat (length facesToApply) @ '' faces)''\<rparr>)
                        (cf_progressItems s5)\<rparr>
               else
                 s5\<lparr>cf_progressItems :=
                      update_item i
                        (\<lambda>item. item\<lparr>item_status := Error,
                                      item_error := Some (error_or lastError ''All faces failed'')\<rparr>)
                        (cf_progressItems s5)\<rparr>))"

fun create_loop ::
  "(nat \<Rightarrow> nat \<Rightarrow> thrown + CreateFacesResult) \<Rightarrow> (nat \<Rightarrow> nat \<Rightarrow> bool)
     \<Rightarrow> (int \<times> string list) list \<Rightarrow> nat \<Rightarrow> UnrecognizedPersonPreview list
     \<Rightarrow> CreateFacesState \<Rightarrow> CreateFacesState" where
  "create_loop respond cancel faceSelections i [] s = s"
| "create_loop respond cancel faceSelections i (preview # rest) s =
     (if cf_cancelRef s then s
      else create_loop respond cancel faceSelections (i + 1) rest
             (create_person respond cancel faceSelections i preview s))"

definition createsToApply ::
  "(string \<Rightarrow> string \<Rightarrow> rat) \<Rightarrow> CreateFacesState \<Rightarrow> UnrecognizedPersonPreview list" where
  "createsToApply localeCompare s =
     filter (\<lambda>p. Set_has (cf_selectedIds s) (up_ms_person_id p)
                \<and> \<not> Set_has (cf_appliedIds s) (up_ms_person_id p))
       (CreateFaces_filteredPreviews localeCompare s)"

definition create_pending :: "(int \<times> string list) list \<Rightarrow> UnrecognizedPersonPreview \<Rightarrow> ProgressItem" where
  "create_pending faceSelections p =
     \<lparr>item_id = IdNumber (up_ms_person_id p),
      item_name = up_ms_person_name p @ '' ('' @
        String_of_nat (CreateFaces_getSelectedFaceCount faceSelections p) @ '' faces)'',
      item_status = Pending, item_error = None\<rparr>"

definition CreateFaces_applySelected ::
  "(string \<Rightarrow> string \<Rightarrow> rat) \<Rightarrow> (nat \<Rightarrow> nat \<Rightarrow> thrown + CreateFacesResult)
     \<Rightarrow> (nat \<Rightarrow> nat \<Rightarrow> bool) \<Rightarrow> CreateFacesState \<Rightarrow> CreateFacesState" where
  "CreateFaces_applySelected localeCompare respond cancel s =
     (let toApply = createsToApply localeCompare s
      in if length toApply = 0 then s
         else
           (let s1 = s\<lparr>cf_cancelRef := False,
                       cf_progressItems := map (create_pending (cf_faceSelections s)) toApply,
                       cf_progressIndex := 0,
                       cf_subProgress := None,
                       cf_showProgress := True,
                       cf_bulkApplying := True,
                       cf_applyError := None,
                       cf_applySuccess := None\<rparr>;
                s2 = create_loop respond cancel (cf_faceSelections s) 0 toApply s1
            in s2\<lparr>cf_bulkApplying := False, cf_subProgress := None\<rparr>))"

section \<open>Notions used to state the properties\<close>





text \<open>
  The confidence rule as the specification words it: \<open>high\<close> iff count \<open>\<ge> 5\<close> and
  mean IoU \<open>\<ge> 0.40\<close>; else \<open>medium\<close> iff count \<open>\<ge> 2\<close> and mean IoU \<open>\<ge> 0.35\<close>;
  else \<open>low\<close>.
\<close>

definition spec_confidence :: "PairAgg \<Rightarrow> Confidence" where
  "spec_confidence a =
     (if count a \<ge> 5 \<and> avg_iou a \<ge> 40/100 then High
      else if count a \<ge> 2 \<and> avg_iou a \<ge> 35/100 then Medium
      else Low)"



text \<open>A storage that works, with nothing in it, and a value of the bookkeeping.\<close>

definition example_storage :: Storage where
  "example_storage = \<lparr>items = Map.empty, getItem_throws = False, setItem_throws = False\<rparr>"

definition example_changes :: AppliedChanges where
  "example_changes =
     \<lparr>renamedClusters = [JStr ''c-1'', JStr ''c-2''], assignedPeople = [JNum 7],
      mergedPeople = [], fixedClusters = [JStr ''c-9'']\<rparr>"



definition example_merge_state :: MergeClustersState where
  "example_merge_state =
     \<lparr>matching = initialState (3/10) (4/10) example_changes,
      localStorage = saveAppliedChanges example_changes example_storage,
      requests = [],
      merge_filterMode = Merge_pending, merge_expandedRows = [], merge_selectedIds = [3, 5]\<rparr>"

definition example_fix_state :: FixIssuesState where
  "example_fix_state =
     \<lparr>matching = initialState (3/10) (4/10) example_changes,
      localStorage = saveAppliedChanges example_changes example_storage,
      requests = [],
      fix_filterMode = Fix_errors, fix_expandedRows = [], fix_selectedIds = [''c-3'', ''c-4'']\<rparr>"

text \<open>
  The context's state with one set of the bookkeeping replaced, and the relation between
  two storages that differ at most in the item of the bookkeeping.
\<close>

definition with_mergedPeople :: "json list \<Rightarrow> MatchingState \<Rightarrow> MatchingState" where
  "with_mergedPeople v m = m\<lparr>appliedChanges := (appliedChanges m)\<lparr>mergedPeople := v\<rparr>\<rparr>"

definition with_fixedClusters :: "json list \<Rightarrow> MatchingState \<Rightarrow> MatchingState" where
  "with_fixedClusters v m = m\<lparr>appliedChanges := (appliedChanges m)\<lparr>fixedClusters := v\<rparr>\<rparr>"

definition only_bookkeeping_written :: "Storage \<Rightarrow> Storage \<Rightarrow> bool" where
  "only_bookkeeping_written st st' \<longleftrightarrow>
     getItem_throws st' = getItem_throws st \<and> setItem_throws st' = setItem_throws st
     \<and> (\<forall>k. k \<noteq> STORAGE_KEY \<longrightarrow> items st' k = items st k)"

text \<open>
  What marking may do, between the state before and the state after: no request is sent,
  the context's state changes in one set of the bookkeeping only, which gains the marked
  ids, the storage changes in the item of the bookkeeping only, and the component keeps
  its filter and its expanded rows.
\<close>

definition merged_marked :: "int set \<Rightarrow> MergeClustersState \<Rightarrow> MergeClustersState \<Rightarrow> bool" where
  "merged_marked ps s s' \<longleftrightarrow>
     requests s' = requests s
     \<and> matching s' = with_mergedPeople (mergedPeople (appliedChanges (matching s'))) (matching s)
     \<and> set (mergedPeople (appliedChanges (matching s')))
         = set (mergedPeople (appliedChanges (matching s))) \<union> (\<lambda>p. JNum (of_int p)) ` ps
     \<and> only_bookkeeping_written (localStorage s) (localStorage s')
     \<and> merge_filterMode s' = merge_filterMode s
     \<and> merge_expandedRows s' = merge_expandedRows s"

definition fixed_marked :: "string set \<Rightarrow> FixIssuesState \<Rightarrow> FixIssuesState \<Rightarrow> bool" where
  "fixed_marked cs s s' \<longleftrightarrow>
     requests s' = requests s
     \<and> matching s' = with_fixedClusters (fixedClusters (appliedChanges (matching s'))) (matching s)
     \<and> set (fixedClusters (appliedChanges (matching s')))
         = set (fixedClusters (appliedChanges (matching s))) \<union> JStr ` cs
     \<and> only_bookkeeping_written (localStorage s) (localStorage s')
     \<and> fix_filterMode s' = fix_filterMode s
     \<and> fix_expandedRows s' = fix_expandedRows s"

text \<open>
  What a progress record becomes when its rename call has been answered, the record an
  item starts with, and the number of items a batch of \<open>n\<close> items processes from index
  \<open>i\<close> on: the loop stops after the first item during whose call Cancel is pressed.
\<close>

definition rename_outcome :: "(thrown + ApplyResult) \<Rightarrow> ProgressItem \<Rightarrow> ProgressItem" where
  "rename_outcome response item =
     (case response of
        Inr result \<Rightarrow>
          if ar_success_count result > 0 then item\<lparr>item_status := Success\<rparr>
          else item\<lparr>item_status := Error,
                    item_error := Some (first_error_or (ar_results_failed result) ''Failed'')\<rparr>
      | Inl err \<Rightarrow> item\<lparr>item_status := Error, item_error := Some (message_or err ''Failed'')\<rparr>)"

definition rename_pending :: "PersonMatch \<Rightarrow> ProgressItem" where
  "rename_pending m =
     \<lparr>item_id = IdString (pm_immich_cluster_id m), item_name = pm_ms_person_name m,
      item_status = Pending, item_error = None\<rparr>"

fun processed :: "(nat \<Rightarrow> bool) \<Rightarrow> nat \<Rightarrow> nat \<Rightarrow> nat" where
  "processed cancel i 0 = 0"
| "processed cancel i (Suc n) = (if cancel i then 1 else Suc (processed cancel (Suc i) n))"

text \<open>A progress list whose records at the indices \<open>i \<le> j < i + p\<close> have been finished.\<close>

definition outcomes_from ::
  "(nat \<Rightarrow> ProgressItem \<Rightarrow> ProgressItem) \<Rightarrow> nat \<Rightarrow> nat \<Rightarrow> ProgressItem list
     \<Rightarrow> ProgressItem list" where
  "outcomes_from f i p xs =
     map (\<lambda>(j, item). if i \<le> j \<and> j < i + p then f j item else item) (enumerate 0 xs)"

definition rename_succeeded :: "(thrown + ApplyResult) \<Rightarrow> bool" where
  "rename_succeeded response =
     (case response of Inr result \<Rightarrow> ar_success_count result > 0 | Inl err \<Rightarrow> False)"

text \<open>
  A Transfer Names tab with one named and one unnamed cluster, both selected, and a
  backend that renames what it is asked to.
\<close>

definition example_named :: PersonMatch where
  "example_named =
     \<lparr>pm_ms_person_id = 1, pm_ms_person_name = ''Alice'', pm_immich_cluster_id = ''c-1'',
      pm_immich_cluster_name = Some ''Alice B.'', pm_face_matches = 6, pm_avg_iou = 1/2,
      pm_avg_center_dist = 1/10, pm_confidence = High, pm_sample_photos = []\<rparr>"

definition example_unnamed :: PersonMatch where
  "example_unnamed =
     \<lparr>pm_ms_person_id = 2, pm_ms_person_name = ''Bob'', pm_immich_cluster_id = ''c-2'',
      pm_immich_cluster_name = None, pm_face_matches = 3, pm_avg_iou = 2/5,
      pm_avg_center_dist = 1/10, pm_confidence = Medium, pm_sample_photos = []\<rparr>"

definition example_other :: PersonMatch where
  "example_other =
     \<lparr>pm_ms_person_id = 3, pm_ms_person_name = ''Carol'', pm_immich_cluster_id = ''c-3'',
      pm_immich_cluster_name = Some [], pm_face_matches = 1, pm_avg_iou = 2/5,
      pm_avg_center_dist = 1/10, pm_confidence = Low, pm_sample_photos = []\<rparr>"

definition example_transfer_state :: TransferNamesState where
  "example_transfer_state =
     \<lparr>matching = (initialState (3/10) (4/10) emptyChanges)
                   \<lparr>clusterMatches := [example_named, example_unnamed, example_other]\<rparr>,
      localStorage = example_storage,
      requests = [],
      tn_filterMode = Transfer_all, tn_confidenceFilter = Confidence_all,
      tn_sortField = Sort_matches, tn_sortDirection = Desc,
      tn_selectedIds = [''c-1'', ''c-2'', ''c-3''], tn_expandedRows = [], tn_applyingId = None,
      tn_bulkApplying = False, tn_applyError = None, tn_progressItems = [],
      tn_progressIndex = 0, tn_showProgress = False, tn_cancelRef = False\<rparr>"

definition renamed_ok :: ApplyResult where
  "renamed_ok =
     \<lparr>ar_dry_run = False, ar_total = 1, ar_success_count = 1, ar_failed_count = 0,
      ar_results_success = [], ar_results_failed = [], ar_results_skipped = []\<rparr>"

definition rename_failed :: ApplyResult where
  "rename_failed =
     \<lparr>ar_dry_run = False, ar_total = 1, ar_success_count = 0, ar_failed_count = 1,
      ar_results_success = [],
      ar_results_failed =
        [\<lparr>failed_id = Some ''c-2'', failed_name = Some ''Bob'', failed_error = ''already named''\<rparr>],
      ar_results_skipped = []\<rparr>"








text \<open>
  A face in the top right of a 4 by 4 image; a Create Faces tab with one selected person
  who has two faces; a backend that fails on the first face and creates the second.
\<close>

definition example_rect_face :: UnrecognizedFacePreview where
  "example_rect_face =
     \<lparr>ur_immich_asset_id = ''asset-1'', ur_filename = ''a.jpg'',
      ms_rect_x1 = 1/8, ms_rect_y1 = 0, ms_rect_x2 = 1, ms_rect_y2 = 1/2,
      image_width = 4, image_height = 4\<rparr>"

definition example_inner_face :: UnrecognizedFacePreview where
  "example_inner_face =
     \<lparr>ur_immich_asset_id = ''asset-2'', ur_filename = ''b.jpg'',
      ms_rect_x1 = 1/8, ms_rect_y1 = 1/8, ms_rect_x2 = 1/2, ms_rect_y2 = 3/4,
      image_width = 4, image_height = 4\<rparr>"

definition example_person :: UnrecognizedPersonPreview where
  "example_person =
     \<lparr>up_ms_person_id = 7, up_ms_person_name = ''Frank'',
      up_existing_immich_person_id = None, up_existing_immich_person_name = None,
      up_needs_person_creation = True, up_face_count = 2, up_total_faces_in_ms_photos = 5,
      up_faces = [example_rect_face, example_inner_face], up_sample_filenames = []\<rparr>"

definition example_create_state :: CreateFacesState where
  "example_create_state =
     \<lparr>matching = initialState (3/10) (4/10) emptyChanges,
      localStorage = example_storage,
      requests = [],
      cf_previews = [example_person], cf_stats = None, cf_loading = False, cf_error = None,
      cf_filterMode = Preview_all, cf_sortField = Create_faces, cf_sortDirection = Desc,
      cf_selectedIds = [7], cf_expandedRows = [], cf_appliedIds = [], cf_applyingId = None,
      cf_bulkApplying = False, cf_applyError = None, cf_applySuccess = None,
      cf_faceSelections = [], cf_progressItems = [], cf_progressIndex = 0,
      cf_showProgress = False, cf_subProgress = None, cf_cancelRef = False\<rparr>"

definition created_ok :: CreateFacesResult where
  "created_ok =
     \<lparr>cfr_dry_run = False, cfr_success = True, cfr_total_faces = 1,
      cfr_faces_created_count = 1, cfr_failed_count = 0, cfr_error = None,
      cfr_results_person_created = None, cfr_results_faces_created = [],
      cfr_results_failed = []\<rparr>"

definition first_fails :: "nat \<Rightarrow> nat \<Rightarrow> thrown + CreateFacesResult" where
  "first_fails i faceIdx = (if faceIdx = 0 then Inl (ErrorObj ''network'') else Inr created_ok)"

text \<open>
  A call that created a face; what decides the record of a person in a batch that is not
  cancelled: whether the person has no selected face or one of the calls for the selected
  faces succeeded.
\<close>

definition create_succeeded :: "(thrown + CreateFacesResult) \<Rightarrow> bool" where
  "create_succeeded response =
     (case response of Inr result \<Rightarrow> cfr_success result | Inl err \<Rightarrow> False)"

definition person_succeeds ::
  "(nat \<Rightarrow> thrown + CreateFacesResult) \<Rightarrow> UnrecognizedFacePreview list \<Rightarrow> bool" where
  "person_succeeds responses faces \<longleftrightarrow>
     faces = [] \<or> (\<exists>f < length faces. create_succeeded (responses f))"

section \<open>The grouping key is injective\<close>









section \<open>The running average is the arithmetic mean\<close>

lemma mean_step:
  fixes a x :: rat
  assumes "n > 0" "a = s / of_nat n"
  shows "(a * of_nat (n + 1 - 1) + x) / of_nat (n + 1) = (s + x) / of_nat (n + 1)"
  using assms by simp












lemma length_filter_three:
  "int (length xs) - int (length (filter P xs)) - int (length (filter (\<lambda>x. Q x \<and> \<not> P x) xs))
     = int (length (filter (\<lambda>x. \<not> P x \<and> \<not> Q x) xs))"
  by (induction xs) auto

section \<open>Properties of the Analytics tab\<close>

text \<open>
  Claim C1. The preview list is the raw list restricted, in order and with multiplicity,
  to the matches with \<open>iou \<ge> I\<close> and \<open>center_dist \<le> C\<close>; a match is in the preview
  iff it is a raw match satisfying both bounds. A single match with \<open>iou\<close> exactly \<open>I\<close>
  (and distance within \<open>C\<close>) is kept, one with \<open>iou = I - eps\<close>, \<open>eps > 0\<close>, is dropped.
\<close>

theorem C1_threshold_filter:
  "Analytics_filteredMatches (Some raw) I C =
      filter (\<lambda>m. I \<le> iou m \<and> center_dist m \<le> C) raw
   \<and> (m \<in> set (Analytics_filteredMatches (Some raw) I C)
        \<longleftrightarrow> m \<in> set raw \<and> I \<le> iou m \<and> center_dist m \<le> C)
   \<and> (iou m = I \<and> center_dist m \<le> C
        \<longrightarrow> Analytics_filteredMatches (Some [m]) I C = [m])
   \<and> (0 < eps \<and> iou m = I - eps
        \<longrightarrow> Analytics_filteredMatches (Some [m]) I C = [])"
  by (auto simp: Analytics_filteredMatches_def)

theorem C1_threshold_filter_witness:
  "Analytics_filteredMatches
      (Some [\<lparr>ms_person_id = 1, ms_person_name = ''Alice'', immich_cluster_id = ''X'',
              immich_cluster_name = None, iou = 3/10, center_dist = 0,
              filename = ''a.jpg''\<rparr>]) (3/10) (4/10)
     = [\<lparr>ms_person_id = 1, ms_person_name = ''Alice'', immich_cluster_id = ''X'',
              immich_cluster_name = None, iou = 3/10, center_dist = 0,
              filename = ''a.jpg''\<rparr>]
   \<and> Analytics_filteredMatches
      (Some [\<lparr>ms_person_id = 1, ms_person_name = ''Alice'', immich_cluster_id = ''X'',
              immich_cluster_name = None, iou = 3/10 - 1/1000, center_dist = 0,
              filename = ''a.jpg''\<rparr>]) (3/10) (4/10) = []"
  using C1_threshold_filter
          [of "[]" "3/10" "4/10"
              "\<lparr>ms_person_id = 1, ms_person_name = ''Alice'', immich_cluster_id = ''X'',
                immich_cluster_name = None, iou = 3/10, center_dist = 0,
                filename = ''a.jpg''\<rparr>" "1/1000"]
        C1_threshold_filter
          [of "[]" "3/10" "4/10"
              "\<lparr>ms_person_id = 1, ms_person_name = ''Alice'', immich_cluster_id = ''X'',
                immich_cluster_name = None, iou = 3/10 - 1/1000, center_dist = 0,
                filename = ''a.jpg''\<rparr>" "1/1000"]
  by simp

text \<open>
  Claim C2. For the aggregates built from the threshold-passing matches, the three
  numbers of \<open>confidenceBreakdown\<close> count the aggregates whose confidence by the
  specification's rule is high, medium and low respectively (three disjoint classes, as
  \<open>spec_confidence\<close> is a function), and they sum to the number of aggregates.
\<close>

theorem C2_confidence_partition:
  "high (confidenceBreakdown (aggregatedMatches (Analytics_filteredMatches raw I C)))
     = int (length (filter (\<lambda>a. spec_confidence a = High)
              (aggregatedMatches (Analytics_filteredMatches raw I C))))
   \<and> medium (confidenceBreakdown (aggregatedMatches (Analytics_filteredMatches raw I C)))
     = int (length (filter (\<lambda>a. spec_confidence a = Medium)
              (aggregatedMatches (Analytics_filteredMatches raw I C))))
   \<and> low (confidenceBreakdown (aggregatedMatches (Analytics_filteredMatches raw I C)))
     = int (length (filter (\<lambda>a. spec_confidence a = Low)
              (aggregatedMatches (Analytics_filteredMatches raw I C))))
   \<and> high (confidenceBreakdown (aggregatedMatches (Analytics_filteredMatches raw I C)))
     + medium (confidenceBreakdown (aggregatedMatches (Analytics_filteredMatches raw I C)))
     + low (confidenceBreakdown (aggregatedMatches (Analytics_filteredMatches raw I C)))
     = int (length (aggregatedMatches (Analytics_filteredMatches raw I C)))"
proof -
  let ?aggs = "aggregatedMatches (Analytics_filteredMatches raw I C)"
  let ?P = "\<lambda>m::PairAgg. count m \<ge> 5 \<and> avg_iou m \<ge> 4/10"
  let ?Q = "\<lambda>m::PairAgg. count m \<ge> 2 \<and> avg_iou m \<ge> 35/100"
  have h: "(\<lambda>a. spec_confidence a = High) = ?P"
    by (auto simp: spec_confidence_def fun_eq_iff)
  have m: "(\<lambda>a. spec_confidence a = Medium) = (\<lambda>m. ?Q m \<and> \<not> ?P m)"
    by (auto simp: spec_confidence_def fun_eq_iff)
  have l: "(\<lambda>a. spec_confidence a = Low) = (\<lambda>m. \<not> ?P m \<and> \<not> ?Q m)"
    by (auto simp: spec_confidence_def fun_eq_iff)
  have 1: "high (confidenceBreakdown ?aggs) = int (length (filter (\<lambda>a. spec_confidence a = High) ?aggs))"
    unfolding h by (simp add: confidenceBreakdown_def Let_def)
  have 2: "medium (confidenceBreakdown ?aggs) = int (length (filter (\<lambda>a. spec_confidence a = Medium) ?aggs))"
    unfolding m by (simp add: confidenceBreakdown_def Let_def)
  have 3: "low (confidenceBreakdown ?aggs) = int (length (filter (\<lambda>a. spec_confidence a = Low) ?aggs))"
    unfolding l using length_filter_three [of ?aggs ?P ?Q]
    by (simp add: confidenceBreakdown_def Let_def)
  have 4: "high (confidenceBreakdown ?aggs) + medium (confidenceBreakdown ?aggs)
      + low (confidenceBreakdown ?aggs) = int (length ?aggs)"
    by (simp add: confidenceBreakdown_def Let_def)
  show ?thesis
    by (intro conjI) (rule 1, rule 2, rule 3, rule 4)
qed



section \<open>Sets as lists\<close>

lemma set_Set_add: "set (Set_add v s) = insert v (set s)"
  by (auto simp: Set_add_def)

lemma distinct_Set_add: "distinct s \<Longrightarrow> distinct (Set_add v s)"
  by (simp add: Set_add_def)

lemma set_Set_delete: "set (Set_delete v s) = set s - {v}"
  by (auto simp: Set_delete_def)

lemma foldl_Set_add:
  "set (foldl (\<lambda>s v. Set_add v s) acc xs) = set acc \<union> set xs
   \<and> (distinct acc \<longrightarrow> distinct (foldl (\<lambda>s v. Set_add v s) acc xs))"
  by (induction xs arbitrary: acc) (auto simp: set_Set_add distinct_Set_add)

lemma set_Set_of_list: "set (Set_of_list xs) = set xs"
  using foldl_Set_add [of "[]" xs] by (simp add: Set_of_list_def)

lemma distinct_Set_of_list: "distinct (Set_of_list xs)"
  using foldl_Set_add [of "[]" xs] by (simp add: Set_of_list_def)

lemma foldl_Set_add_distinct:
  "distinct (acc @ xs) \<Longrightarrow> foldl (\<lambda>s v. Set_add v s) acc xs = acc @ xs"
  by (induction xs arbitrary: acc) (auto simp: Set_add_def)

lemma Set_of_list_distinct: "distinct xs \<Longrightarrow> Set_of_list xs = xs"
  using foldl_Set_add_distinct [of "[]" xs] by (simp add: Set_of_list_def)

section \<open>Persistence of the bookkeeping\<close>

lemma load_after_save:
  assumes "\<not> setItem_throws st" "\<not> getItem_throws st"
  shows "loadAppliedChanges (saveAppliedChanges c st)
     = \<lparr>renamedClusters = Set_of_list (renamedClusters c),
        assignedPeople = Set_of_list (assignedPeople c),
        mergedPeople = Set_of_list (mergedPeople c),
        fixedClusters = Set_of_list (fixedClusters c)\<rparr>"
  using assms
  by (simp add: loadAppliedChanges_def loadAppliedChanges_try_def saveAppliedChanges_def
      setItem_def getItem_def try_bind_def JSON_stringify_def
      Set_of_property_def or_empty_array_def STORAGE_KEY_def)

lemma load_defaults:
  assumes "getItem_throws st \<or> items st STORAGE_KEY = None
           \<or> items st STORAGE_KEY = Some EmptyString \<or> items st STORAGE_KEY = Some NotJSON"
  shows "loadAppliedChanges st = emptyChanges"
  using assms
  by (auto simp add: loadAppliedChanges_def loadAppliedChanges_try_def
      getItem_def try_bind_def)

lemma loadThresholds_defaults:
  assumes "getItem_throws st \<or> items st THRESHOLDS_STORAGE_KEY = None
           \<or> items st THRESHOLDS_STORAGE_KEY = Some EmptyString
           \<or> items st THRESHOLDS_STORAGE_KEY = Some NotJSON"
  shows "loadThresholds st = defaultThresholds"
  using assms
  by (auto simp add: loadThresholds_def loadThresholds_try_def
      getItem_def try_bind_def)

text \<open>
  Claim C10. On a storage that accepts the write and the read, loading after saving
  \<open>c\<close> returns four sets with exactly the elements of \<open>c\<close>'s sets (and \<open>c\<close> itself when
  its four lists are sets, that is, repetition-free). Loading never throws: the loaders
  are total functions, and when the stored value is absent, empty or not JSON, or the
  read itself throws, \<open>loadAppliedChanges\<close> returns four empty sets and
  \<open>loadThresholds\<close> returns \<open>minIoU = 0.3\<close>, \<open>maxCenterDist = 0.4\<close>.
\<close>

theorem C10_persistence_roundtrip:
  "(\<not> setItem_throws st \<and> \<not> getItem_throws st \<longrightarrow>
      set (renamedClusters (loadAppliedChanges (saveAppliedChanges c st))) = set (renamedClusters c)
    \<and> set (assignedPeople (loadAppliedChanges (saveAppliedChanges c st))) = set (assignedPeople c)
    \<and> set (mergedPeople (loadAppliedChanges (saveAppliedChanges c st))) = set (mergedPeople c)
    \<and> set (fixedClusters (loadAppliedChanges (saveAppliedChanges c st))) = set (fixedClusters c)
    \<and> (distinct (renamedClusters c) \<and> distinct (assignedPeople c)
        \<and> distinct (mergedPeople c) \<and> distinct (fixedClusters c)
        \<longrightarrow> loadAppliedChanges (saveAppliedChanges c st) = c))
   \<and> (getItem_throws st \<or> items st STORAGE_KEY = None
        \<or> items st STORAGE_KEY = Some EmptyString \<or> items st STORAGE_KEY = Some NotJSON
      \<longrightarrow> loadAppliedChanges st = emptyChanges)
   \<and> (getItem_throws st \<or> items st THRESHOLDS_STORAGE_KEY = None
        \<or> items st THRESHOLDS_STORAGE_KEY = Some EmptyString
        \<or> items st THRESHOLDS_STORAGE_KEY = Some NotJSON
      \<longrightarrow> loadThresholds st
            = \<lparr>stored_minIoU = JNum (3/10), stored_maxCenterDist = JNum (4/10)\<rparr>)"
proof (intro conjI impI)
  assume a: "\<not> setItem_throws st \<and> \<not> getItem_throws st"
  then have l: "loadAppliedChanges (saveAppliedChanges c st)
     = \<lparr>renamedClusters = Set_of_list (renamedClusters c),
        assignedPeople = Set_of_list (assignedPeople c),
        mergedPeople = Set_of_list (mergedPeople c),
        fixedClusters = Set_of_list (fixedClusters c)\<rparr>"
    by (simp add: load_after_save)
  show "set (renamedClusters (loadAppliedChanges (saveAppliedChanges c st))) = set (renamedClusters c)"
    by (simp add: l set_Set_of_list)
  show "set (assignedPeople (loadAppliedChanges (saveAppliedChanges c st))) = set (assignedPeople c)"
    by (simp add: l set_Set_of_list)
  show "set (mergedPeople (loadAppliedChanges (saveAppliedChanges c st))) = set (mergedPeople c)"
    by (simp add: l set_Set_of_list)
  show "set (fixedClusters (loadAppliedChanges (saveAppliedChanges c st))) = set (fixedClusters c)"
    by (simp add: l set_Set_of_list)
  assume "distinct (renamedClusters c) \<and> distinct (assignedPeople c)
        \<and> distinct (mergedPeople c) \<and> distinct (fixedClusters c)"
  then show "loadAppliedChanges (saveAppliedChanges c st) = c"
    by (simp add: l Set_of_list_distinct)
next
  assume "getItem_throws st \<or> items st STORAGE_KEY = None
        \<or> items st STORAGE_KEY = Some EmptyString \<or> items st STORAGE_KEY = Some NotJSON"
  then show "loadAppliedChanges st = emptyChanges" by (rule load_defaults)
next
  assume "getItem_throws st \<or> items st THRESHOLDS_STORAGE_KEY = None
        \<or> items st THRESHOLDS_STORAGE_KEY = Some EmptyString
        \<or> items st THRESHOLDS_STORAGE_KEY = Some NotJSON"
  then have "loadThresholds st = defaultThresholds" by (rule loadThresholds_defaults)
  then show "loadThresholds st
            = \<lparr>stored_minIoU = JNum (3/10), stored_maxCenterDist = JNum (4/10)\<rparr>"
    by (simp add: defaultThresholds_def)
qed

theorem C10_persistence_roundtrip_witness:
  "loadAppliedChanges (saveAppliedChanges example_changes example_storage) = example_changes
   \<and> loadAppliedChanges example_storage = emptyChanges
   \<and> loadThresholds example_storage
       = \<lparr>stored_minIoU = JNum (3/10), stored_maxCenterDist = JNum (4/10)\<rparr>"
  using C10_persistence_roundtrip [of example_storage example_changes]
  by (simp add: example_storage_def example_changes_def)

section \<open>Fetching and the bookkeeping\<close>



lemma saveAppliedChanges_other_key:
  "k \<noteq> STORAGE_KEY \<Longrightarrow> items (saveAppliedChanges c st) k = items st k"
  by (simp add: saveAppliedChanges_def setItem_def)

lemma saveAppliedChanges_flags:
  "getItem_throws (saveAppliedChanges c st) = getItem_throws st
   \<and> setItem_throws (saveAppliedChanges c st) = setItem_throws st"
  by (simp add: saveAppliedChanges_def setItem_def)

lemma storage_keys_differ: "STORAGE_KEY \<noteq> THRESHOLDS_STORAGE_KEY"
  by (simp add: STORAGE_KEY_def THRESHOLDS_STORAGE_KEY_def)




section \<open>Marking is local\<close>

lemma with_mergedPeople_twice [simp]:
  "with_mergedPeople a (with_mergedPeople b m) = with_mergedPeople a m"
  by (simp add: with_mergedPeople_def)

lemma mergedPeople_with_mergedPeople [simp]:
  "mergedPeople (appliedChanges (with_mergedPeople a m)) = a"
  by (simp add: with_mergedPeople_def)

lemma with_fixedClusters_twice [simp]:
  "with_fixedClusters a (with_fixedClusters b m) = with_fixedClusters a m"
  by (simp add: with_fixedClusters_def)

lemma fixedClusters_with_fixedClusters [simp]:
  "fixedClusters (appliedChanges (with_fixedClusters a m)) = a"
  by (simp add: with_fixedClusters_def)

lemma only_bookkeeping_written_refl: "only_bookkeeping_written st st"
  by (simp add: only_bookkeeping_written_def)

lemma only_bookkeeping_written_save:
  "only_bookkeeping_written st st' \<Longrightarrow> only_bookkeeping_written st (saveAppliedChanges c st')"
  by (simp add: only_bookkeeping_written_def saveAppliedChanges_flags saveAppliedChanges_other_key)

lemma requests_markClustersMerged [simp]: "requests (markClustersMerged p w) = requests w"
  by (simp add: markClustersMerged_def Let_def)

lemma more_markClustersMerged [simp]: "World.more (markClustersMerged p w) = World.more w"
  by (simp add: markClustersMerged_def Let_def)

lemma matching_markClustersMerged:
  "matching (markClustersMerged p w)
     = with_mergedPeople
         (Set_of_list (mergedPeople (appliedChanges (matching w)) @ [JNum (of_int p)]))
         (matching w)"
  by (simp add: markClustersMerged_def Let_def with_mergedPeople_def)

lemma localStorage_markClustersMerged:
  "localStorage (markClustersMerged p w)
     = saveAppliedChanges (appliedChanges (matching (markClustersMerged p w))) (localStorage w)"
  by (simp add: markClustersMerged_def Let_def)

lemma requests_markClusterFixed [simp]: "requests (markClusterFixed c w) = requests w"
  by (simp add: markClusterFixed_def Let_def)

lemma more_markClusterFixed [simp]: "World.more (markClusterFixed c w) = World.more w"
  by (simp add: markClusterFixed_def Let_def)

lemma matching_markClusterFixed:
  "matching (markClusterFixed c w)
     = with_fixedClusters
         (Set_of_list (fixedClusters (appliedChanges (matching w)) @ [JStr c]))
         (matching w)"
  by (simp add: markClusterFixed_def Let_def with_fixedClusters_def)

lemma localStorage_markClusterFixed:
  "localStorage (markClusterFixed c w)
     = saveAppliedChanges (appliedChanges (matching (markClusterFixed c w))) (localStorage w)"
  by (simp add: markClusterFixed_def Let_def)

lemma with_mergedPeople_same [simp]:
  "with_mergedPeople (mergedPeople (appliedChanges m)) m = m"
  by (simp add: with_mergedPeople_def)

lemma with_fixedClusters_same [simp]:
  "with_fixedClusters (fixedClusters (appliedChanges m)) m = m"
  by (simp add: with_fixedClusters_def)

lemma foldl_markClustersMerged_requests:
  "requests (foldl (\<lambda>w p. markClustersMerged p w) w ps) = requests w"
  by (induction ps arbitrary: w) simp_all

lemma foldl_markClustersMerged_matching:
  "\<exists>v. matching (foldl (\<lambda>w p. markClustersMerged p w) w ps) = with_mergedPeople v (matching w)
       \<and> set v = set (mergedPeople (appliedChanges (matching w)))
                   \<union> (\<lambda>p. JNum (of_int p)) ` set ps"
proof (induction ps arbitrary: w)
  case Nil
  have "matching w = with_mergedPeople (mergedPeople (appliedChanges (matching w))) (matching w)"
    by simp
  then show ?case by (intro exI [of _ "mergedPeople (appliedChanges (matching w))"]) simp
next
  case (Cons p ps)
  let ?w1 = "markClustersMerged p w"
  let ?v1 = "Set_of_list (mergedPeople (appliedChanges (matching w)) @ [JNum (of_int p)])"
  have m1: "matching ?w1 = with_mergedPeople ?v1 (matching w)"
    by (rule matching_markClustersMerged)
  from Cons.IH [of ?w1] obtain v
    where v: "matching (foldl (\<lambda>w p. markClustersMerged p w) ?w1 ps)
                = with_mergedPeople v (matching ?w1)"
      and sv: "set v = set (mergedPeople (appliedChanges (matching ?w1)))
                   \<union> (\<lambda>p. JNum (of_int p)) ` set ps"
    by blast
  have "matching (foldl (\<lambda>w p. markClustersMerged p w) w (p # ps)) = with_mergedPeople v (matching w)"
    using v by (simp add: m1)
  moreover have "set v = set (mergedPeople (appliedChanges (matching w)))
                   \<union> (\<lambda>p. JNum (of_int p)) ` set (p # ps)"
    using sv by (simp add: m1 set_Set_of_list)
  ultimately show ?case by blast
qed

lemma foldl_markClustersMerged_storage:
  "only_bookkeeping_written (localStorage w)
     (localStorage (foldl (\<lambda>w p. markClustersMerged p w) w ps))"
proof (induction ps arbitrary: w)
  case Nil
  show ?case by (simp add: only_bookkeeping_written_refl)
next
  case (Cons p ps)
  have "only_bookkeeping_written (localStorage w) (localStorage (markClustersMerged p w))"
    unfolding localStorage_markClustersMerged
    by (rule only_bookkeeping_written_save) (rule only_bookkeeping_written_refl)
  moreover have "only_bookkeeping_written (localStorage (markClustersMerged p w))
     (localStorage (foldl (\<lambda>w p. markClustersMerged p w) (markClustersMerged p w) ps))"
    by (rule Cons.IH)
  ultimately show ?case by (simp add: only_bookkeeping_written_def)
qed

lemma foldl_markClusterFixed_requests:
  "requests (foldl (\<lambda>w c. markClusterFixed c w) w cs) = requests w"
  by (induction cs arbitrary: w) simp_all

lemma foldl_markClusterFixed_matching:
  "\<exists>v. matching (foldl (\<lambda>w c. markClusterFixed c w) w cs) = with_fixedClusters v (matching w)
       \<and> set v = set (fixedClusters (appliedChanges (matching w))) \<union> JStr ` set cs"
proof (induction cs arbitrary: w)
  case Nil
  have "matching w = with_fixedClusters (fixedClusters (appliedChanges (matching w))) (matching w)"
    by simp
  then show ?case by (intro exI [of _ "fixedClusters (appliedChanges (matching w))"]) simp
next
  case (Cons c cs)
  let ?w1 = "markClusterFixed c w"
  let ?v1 = "Set_of_list (fixedClusters (appliedChanges (matching w)) @ [JStr c])"
  have m1: "matching ?w1 = with_fixedClusters ?v1 (matching w)"
    by (rule matching_markClusterFixed)
  from Cons.IH [of ?w1] obtain v
    where v: "matching (foldl (\<lambda>w c. markClusterFixed c w) ?w1 cs)
                = with_fixedClusters v (matching ?w1)"
      and sv: "set v = set (fixedClusters (appliedChanges (matching ?w1))) \<union> JStr ` set cs"
    by blast
  have "matching (foldl (\<lambda>w c. markClusterFixed c w) w (c # cs)) = with_fixedClusters v (matching w)"
    using v by (simp add: m1)
  moreover have "set v = set (fixedClusters (appliedChanges (matching w))) \<union> JStr ` set (c # cs)"
    using sv by (simp add: m1 set_Set_of_list)
  ultimately show ?case by blast
qed

lemma foldl_markClusterFixed_storage:
  "only_bookkeeping_written (localStorage w)
     (localStorage (foldl (\<lambda>w c. markClusterFixed c w) w cs))"
proof (induction cs arbitrary: w)
  case Nil
  show ?case by (simp add: only_bookkeeping_written_refl)
next
  case (Cons c cs)
  have "only_bookkeeping_written (localStorage w) (localStorage (markClusterFixed c w))"
    unfolding localStorage_markClusterFixed
    by (rule only_bookkeeping_written_save) (rule only_bookkeeping_written_refl)
  moreover have "only_bookkeeping_written (localStorage (markClusterFixed c w))
     (localStorage (foldl (\<lambda>w c. markClusterFixed c w) (markClusterFixed c w) cs))"
    by (rule Cons.IH)
  ultimately show ?case by (simp add: only_bookkeeping_written_def)
qed

lemma foldl_markClustersMerged_ui:
  "merge_filterMode (foldl (\<lambda>w p. markClustersMerged p w) s ps) = merge_filterMode s
   \<and> merge_expandedRows (foldl (\<lambda>w p. markClustersMerged p w) s ps) = merge_expandedRows s"
  by (induction ps arbitrary: s) (simp_all add: markClustersMerged_def Let_def)

lemma foldl_markClusterFixed_ui:
  "fix_filterMode (foldl (\<lambda>w c. markClusterFixed c w) s cs) = fix_filterMode s
   \<and> fix_expandedRows (foldl (\<lambda>w c. markClusterFixed c w) s cs) = fix_expandedRows s"
  by (induction cs arbitrary: s) (simp_all add: markClusterFixed_def Let_def)

lemma merged_marked_markAsMerged: "merged_marked {p} s (markAsMerged p s)"
proof -
  let ?v = "Set_of_list (mergedPeople (appliedChanges (matching s)) @ [JNum (of_int p)])"
  have m: "matching (markAsMerged p s) = with_mergedPeople ?v (matching s)"
    by (simp add: markAsMerged_def Let_def matching_markClustersMerged)
  have st: "localStorage (markAsMerged p s)
      = saveAppliedChanges (appliedChanges (matching (markClustersMerged p s))) (localStorage s)"
    by (simp add: markAsMerged_def Let_def localStorage_markClustersMerged [symmetric])
  have "only_bookkeeping_written (localStorage s) (localStorage (markAsMerged p s))"
    unfolding st by (rule only_bookkeeping_written_save) (rule only_bookkeeping_written_refl)
  moreover have "requests (markAsMerged p s) = requests s"
    by (simp add: markAsMerged_def Let_def)
  moreover have "merge_filterMode (markAsMerged p s) = merge_filterMode s
      \<and> merge_expandedRows (markAsMerged p s) = merge_expandedRows s"
    by (simp add: markAsMerged_def Let_def markClustersMerged_def)
  ultimately show ?thesis
    unfolding merged_marked_def by (simp add: m set_Set_of_list)
qed

lemma merged_marked_markSelectedAsMerged:
  "merged_marked (set (merge_selectedIds s)) s (markSelectedAsMerged s)"
proof -
  let ?f = "foldl (\<lambda>w p. markClustersMerged p w) s (merge_selectedIds s)"
  from foldl_markClustersMerged_matching [of s "merge_selectedIds s"] obtain v
    where v: "matching ?f = with_mergedPeople v (matching s)"
      and sv: "set v = set (mergedPeople (appliedChanges (matching s)))
                   \<union> (\<lambda>p. JNum (of_int p)) ` set (merge_selectedIds s)"
    by blast
  have m: "matching (markSelectedAsMerged s) = with_mergedPeople v (matching s)"
    using v by (simp add: markSelectedAsMerged_def Let_def)
  have "only_bookkeeping_written (localStorage s) (localStorage (markSelectedAsMerged s))"
    using foldl_markClustersMerged_storage [of s "merge_selectedIds s"]
    by (simp add: markSelectedAsMerged_def Let_def)
  moreover have "requests (markSelectedAsMerged s) = requests s"
    by (simp add: markSelectedAsMerged_def Let_def foldl_markClustersMerged_requests)
  moreover have "merge_filterMode (markSelectedAsMerged s) = merge_filterMode s
      \<and> merge_expandedRows (markSelectedAsMerged s) = merge_expandedRows s"
    by (simp add: markSelectedAsMerged_def Let_def foldl_markClustersMerged_ui)
  ultimately show ?thesis
    unfolding merged_marked_def by (simp add: m sv)
qed

lemma fixed_marked_markAsFixed: "fixed_marked {c} s (markAsFixed c s)"
proof -
  let ?v = "Set_of_list (fixedClusters (appliedChanges (matching s)) @ [JStr c])"
  have m: "matching (markAsFixed c s) = with_fixedClusters ?v (matching s)"
    by (simp add: markAsFixed_def Let_def matching_markClusterFixed)
  have st: "localStorage (markAsFixed c s)
      = saveAppliedChanges (appliedChanges (matching (markClusterFixed c s))) (localStorage s)"
    by (simp add: markAsFixed_def Let_def localStorage_markClusterFixed [symmetric])
  have "only_bookkeeping_written (localStorage s) (localStorage (markAsFixed c s))"
    unfolding st by (rule only_bookkeeping_written_save) (rule only_bookkeeping_written_refl)
  moreover have "requests (markAsFixed c s) = requests s"
    by (simp add: markAsFixed_def Let_def)
  moreover have "fix_filterMode (markAsFixed c s) = fix_filterMode s
      \<and> fix_expandedRows (markAsFixed c s) = fix_expandedRows s"
    by (simp add: markAsFixed_def Let_def markClusterFixed_def)
  ultimately show ?thesis
    unfolding fixed_marked_def by (simp add: m set_Set_of_list)
qed

lemma fixed_marked_markSelectedAsFixed:
  "fixed_marked (set (fix_selectedIds s)) s (markSelectedAsFixed s)"
proof -
  let ?f = "foldl (\<lambda>w c. markClusterFixed c w) s (fix_selectedIds s)"
  from foldl_markClusterFixed_matching [of s "fix_selectedIds s"] obtain v
    where v: "matching ?f = with_fixedClusters v (matching s)"
      and sv: "set v = set (fixedClusters (appliedChanges (matching s)))
                   \<union> JStr ` set (fix_selectedIds s)"
    by blast
  have m: "matching (markSelectedAsFixed s) = with_fixedClusters v (matching s)"
    using v by (simp add: markSelectedAsFixed_def Let_def)
  have "only_bookkeeping_written (localStorage s) (localStorage (markSelectedAsFixed s))"
    using foldl_markClusterFixed_storage [of s "fix_selectedIds s"]
    by (simp add: markSelectedAsFixed_def Let_def)
  moreover have "requests (markSelectedAsFixed s) = requests s"
    by (simp add: markSelectedAsFixed_def Let_def foldl_markClusterFixed_requests)
  moreover have "fix_filterMode (markSelectedAsFixed s) = fix_filterMode s
      \<and> fix_expandedRows (markSelectedAsFixed s) = fix_expandedRows s"
    by (simp add: markSelectedAsFixed_def Let_def foldl_markClusterFixed_ui)
  ultimately show ?thesis
    unfolding fixed_marked_def by (simp add: m sv)
qed

text \<open>
  Claim C7. Marking a merge candidate or a validation issue as done, one at a time or
  for the whole selection, sends no request: the list of requests is unchanged. In the
  context's state only \<open>mergedPeople\<close> (respectively \<open>fixedClusters\<close>) changes, gaining the
  marked ids; the storage changes in the item of the bookkeeping only; of the component
  only the selection changes, losing the marked id or becoming empty.
\<close>

theorem C7_marking_is_local:
  "merged_marked {personId} s (markAsMerged personId s)
   \<and> set (merge_selectedIds (markAsMerged personId s)) = set (merge_selectedIds s) - {personId}
   \<and> merged_marked (set (merge_selectedIds s)) s (markSelectedAsMerged s)
   \<and> merge_selectedIds (markSelectedAsMerged s) = []
   \<and> fixed_marked {clusterId} t (markAsFixed clusterId t)
   \<and> set (fix_selectedIds (markAsFixed clusterId t)) = set (fix_selectedIds t) - {clusterId}
   \<and> fixed_marked (set (fix_selectedIds t)) t (markSelectedAsFixed t)
   \<and> fix_selectedIds (markSelectedAsFixed t) = []"
proof (intro conjI)
  show "merged_marked {personId} s (markAsMerged personId s)"
    by (rule merged_marked_markAsMerged)
  show "set (merge_selectedIds (markAsMerged personId s)) = set (merge_selectedIds s) - {personId}"
    by (simp add: markAsMerged_def Let_def set_Set_delete markClustersMerged_def)
  show "merged_marked (set (merge_selectedIds s)) s (markSelectedAsMerged s)"
    by (rule merged_marked_markSelectedAsMerged)
  show "merge_selectedIds (markSelectedAsMerged s) = []"
    by (simp add: markSelectedAsMerged_def Let_def)
  show "fixed_marked {clusterId} t (markAsFixed clusterId t)"
    by (rule fixed_marked_markAsFixed)
  show "set (fix_selectedIds (markAsFixed clusterId t)) = set (fix_selectedIds t) - {clusterId}"
    by (simp add: markAsFixed_def Let_def set_Set_delete markClusterFixed_def)
  show "fixed_marked (set (fix_selectedIds t)) t (markSelectedAsFixed t)"
    by (rule fixed_marked_markSelectedAsFixed)
  show "fix_selectedIds (markSelectedAsFixed t) = []"
    by (simp add: markSelectedAsFixed_def Let_def)
qed

theorem C7_marking_is_local_witness:
  "requests (markSelectedAsMerged example_merge_state) = []
   \<and> set (mergedPeople (appliedChanges (matching (markSelectedAsMerged example_merge_state))))
       = {JNum 3, JNum 5}
   \<and> items (localStorage (markSelectedAsMerged example_merge_state)) THRESHOLDS_STORAGE_KEY = None
   \<and> requests (markAsFixed ''c-3'' example_fix_state) = []
   \<and> set (fixedClusters (appliedChanges (matching (markAsFixed ''c-3'' example_fix_state))))
       = {JStr ''c-9'', JStr ''c-3''}
   \<and> items (localStorage (markAsFixed ''c-3'' example_fix_state)) THRESHOLDS_STORAGE_KEY = None"
proof -
  note c7 = C7_marking_is_local [of 3 example_merge_state "''c-3''" example_fix_state]
  have k: "THRESHOLDS_STORAGE_KEY \<noteq> STORAGE_KEY"
    using storage_keys_differ by simp
  have m0: "requests example_merge_state = []
      \<and> mergedPeople (appliedChanges (matching example_merge_state)) = []
      \<and> merge_selectedIds example_merge_state = [3, 5]
      \<and> items (localStorage example_merge_state) THRESHOLDS_STORAGE_KEY = None"
    using k by (simp add: example_merge_state_def initialState_def example_changes_def
        saveAppliedChanges_other_key example_storage_def)
  have f0: "requests example_fix_state = []
      \<and> fixedClusters (appliedChanges (matching example_fix_state)) = [JStr ''c-9'']
      \<and> items (localStorage example_fix_state) THRESHOLDS_STORAGE_KEY = None"
    using k by (simp add: example_fix_state_def initialState_def example_changes_def
        saveAppliedChanges_other_key example_storage_def)
  from c7 have "merged_marked (set (merge_selectedIds example_merge_state)) example_merge_state
      (markSelectedAsMerged example_merge_state)" by blast
  then have a: "requests (markSelectedAsMerged example_merge_state) = []
   \<and> set (mergedPeople (appliedChanges (matching (markSelectedAsMerged example_merge_state))))
       = {JNum 3, JNum 5}
   \<and> items (localStorage (markSelectedAsMerged example_merge_state)) THRESHOLDS_STORAGE_KEY = None"
    using m0 k unfolding merged_marked_def only_bookkeeping_written_def by auto
  from c7 have "fixed_marked {''c-3''} example_fix_state (markAsFixed ''c-3'' example_fix_state)"
    by blast
  then have b: "requests (markAsFixed ''c-3'' example_fix_state) = []
   \<and> set (fixedClusters (appliedChanges (matching (markAsFixed ''c-3'' example_fix_state))))
       = {JStr ''c-9'', JStr ''c-3''}
   \<and> items (localStorage (markAsFixed ''c-3'' example_fix_state)) THRESHOLDS_STORAGE_KEY = None"
    using f0 k unfolding fixed_marked_def only_bookkeeping_written_def by auto
  from a b show ?thesis by blast
qed

section \<open>The bulk rename loop\<close>

lemma update_item_eq:
  "update_item i f xs = (if i < length xs then xs[i := f (xs ! i)] else xs)"
  by (rule nth_equalityI) (auto simp: update_item_def nth_enumerate_eq)

lemma length_update_item [simp]: "length (update_item i f xs) = length xs"
  by (simp add: update_item_def)

lemma processed_le: "processed cancel i n \<le> n"
  by (induction n arbitrary: i) auto


lemma processed_no_cancel:
  "(\<forall>j. i \<le> j \<and> j < i + n \<longrightarrow> \<not> cancel j) \<Longrightarrow> processed cancel i n = n"
proof (induction n arbitrary: i)
  case 0
  then show ?case by simp
next
  case (Suc n)
  then have "\<not> cancel i" by simp
  moreover have "processed cancel (Suc i) n = n"
    by (rule Suc.IH) (use Suc.prems in auto)
  ultimately show ?case by simp
qed

lemma rename_item_progress:
  "tn_progressItems (rename_item i m r c s)
     = update_item i (rename_outcome r) (tn_progressItems s)"
  by (cases r)
     (auto simp: rename_item_def rename_outcome_def Let_def update_item_eq
        TransferNames_handleCancelProgress_def markClusterRenamed_def)

lemma rename_item_requests:
  "requests (rename_item i m r c s) = requests s @ [rename_request m]"
  by (cases r)
     (auto simp: rename_item_def Let_def TransferNames_handleCancelProgress_def
        markClusterRenamed_def)

lemma rename_item_flags:
  "tn_cancelRef (rename_item i m r c s) = (tn_cancelRef s \<or> (c \<and> tn_bulkApplying s))
   \<and> tn_bulkApplying (rename_item i m r c s) = tn_bulkApplying s"
  by (cases r)
     (auto simp: rename_item_def Let_def TransferNames_handleCancelProgress_def
        markClusterRenamed_def)

lemma length_outcomes_from [simp]: "length (outcomes_from f i p xs) = length xs"
  by (simp add: outcomes_from_def)

lemma nth_outcomes_from:
  "j < length xs \<Longrightarrow>
     outcomes_from f i p xs ! j = (if i \<le> j \<and> j < i + p then f j (xs ! j) else xs ! j)"
  by (simp add: outcomes_from_def nth_enumerate_eq)

lemma outcomes_from_none [simp]: "outcomes_from f i 0 xs = xs"
  by (rule nth_equalityI) (auto simp: nth_outcomes_from)

lemma outcomes_from_one: "outcomes_from f i (Suc 0) xs = update_item i (f i) xs"
proof (rule nth_equalityI)
  show "length (outcomes_from f i (Suc 0) xs) = length (update_item i (f i) xs)" by simp
next
  fix j assume "j < length (outcomes_from f i (Suc 0) xs)"
  then have j: "j < length xs" by simp
  have "(i \<le> j \<and> j < i + Suc 0) = (j = i)" by arith
  with j show "outcomes_from f i (Suc 0) xs ! j = update_item i (f i) xs ! j"
    by (simp add: nth_outcomes_from update_item_eq)
qed

lemma outcomes_from_step:
  "outcomes_from f (Suc i) p (update_item i (f i) xs) = outcomes_from f i (Suc p) xs"
proof (rule nth_equalityI)
  show "length (outcomes_from f (Suc i) p (update_item i (f i) xs))
      = length (outcomes_from f i (Suc p) xs)" by simp
next
  fix j assume "j < length (outcomes_from f (Suc i) p (update_item i (f i) xs))"
  then have j: "j < length xs" by simp
  show "outcomes_from f (Suc i) p (update_item i (f i) xs) ! j = outcomes_from f i (Suc p) xs ! j"
  proof (cases "j = i")
    case True
    with j show ?thesis by (simp add: nth_outcomes_from update_item_eq)
  next
    case False
    then have "(Suc i \<le> j \<and> j < Suc i + p) = (i \<le> j \<and> j < i + Suc p)" by arith
    with j False show ?thesis by (simp add: nth_outcomes_from update_item_eq)
  qed
qed

lemma rename_loop_cancelled: "tn_cancelRef s \<Longrightarrow> rename_loop respond cancel i rest s = s"
  by (cases rest) simp_all

lemma rename_loop_closed:
  "\<not> tn_cancelRef s \<Longrightarrow> tn_bulkApplying s \<Longrightarrow>
     tn_progressItems (rename_loop respond cancel i rest s)
       = outcomes_from (\<lambda>j. rename_outcome (respond j)) i
           (processed cancel i (length rest)) (tn_progressItems s)
     \<and> requests (rename_loop respond cancel i rest s)
       = requests s @ map rename_request (take (processed cancel i (length rest)) rest)"
proof (induction rest arbitrary: i s)
  case Nil
  then show ?case by simp
next
  case (Cons m rest)
  let ?s4 = "rename_item i m (respond i) (cancel i) s"
  have step: "rename_loop respond cancel i (m # rest) s = rename_loop respond cancel (Suc i) rest ?s4"
    using Cons.prems by simp
  have p4: "tn_progressItems ?s4
      = update_item i (rename_outcome (respond i)) (tn_progressItems s)"
    by (rule rename_item_progress)
  have r4: "requests ?s4 = requests s @ [rename_request m]"
    by (rule rename_item_requests)
  have f4: "tn_cancelRef ?s4 = cancel i" "tn_bulkApplying ?s4"
    using Cons.prems rename_item_flags [of i m "respond i" "cancel i" s] by auto
  show ?case
  proof (cases "cancel i")
    case True
    then have fin: "rename_loop respond cancel (Suc i) rest ?s4 = ?s4"
      using f4 by (simp add: rename_loop_cancelled)
    have p: "processed cancel i (length (m # rest)) = Suc 0"
      using True by simp
    show ?thesis
      unfolding step fin p4 r4 p
      by (simp add: outcomes_from_one [where f = "\<lambda>j. rename_outcome (respond j)"])
  next
    case False
    then have "\<not> tn_cancelRef ?s4" using f4 by simp
    note ih = Cons.IH [OF this f4(2), of "Suc i"]
    have p: "processed cancel i (length (m # rest)) = Suc (processed cancel (Suc i) (length rest))"
      using False by simp
    show ?thesis
      unfolding step p using ih
      by (simp add: p4 r4 outcomes_from_step [where f = "\<lambda>j. rename_outcome (respond j)"])
  qed
qed

lemma set_insert_sorted: "set (insert_sorted cmp v vs) = insert v (set vs)"
  by (induction vs) auto

lemma set_Array_sort: "set (Array_sort cmp vs) = set vs"
  unfolding Array_sort_def by (induction vs) (simp_all add: set_insert_sorted)

lemma matchesToApply_unnamed:
  "m \<in> set (matchesToApply localeCompare s) \<Longrightarrow>
     m \<in> set (clusterMatches (matching s)) \<and> \<not> isAlreadyNamed m
     \<and> \<not> isApplied (appliedChanges (matching s)) m
     \<and> Set_has (tn_selectedIds s) (pm_immich_cluster_id m)"
  by (auto simp: matchesToApply_def TransferNames_filteredMatches_def Let_def set_Array_sort
      split: ConfidenceFilter.splits)

lemma applySelected_closed:
  assumes "matchesToApply localeCompare s \<noteq> []"
  shows "tn_progressItems (TransferNames_applySelected localeCompare respond cancel s)
       = outcomes_from (\<lambda>j. rename_outcome (respond j)) 0
           (processed cancel 0 (length (matchesToApply localeCompare s)))
           (map rename_pending (matchesToApply localeCompare s))
     \<and> requests (TransferNames_applySelected localeCompare respond cancel s)
       = requests s @ map rename_request
           (take (processed cancel 0 (length (matchesToApply localeCompare s)))
              (matchesToApply localeCompare s))"
proof -
  let ?toApply = "matchesToApply localeCompare s"
  let ?s1 = "s\<lparr>tn_cancelRef := False,
                 tn_progressItems :=
                   map (\<lambda>m. \<lparr>item_id = IdString (pm_immich_cluster_id m),
                              item_name = pm_ms_person_name m,
                              item_status = Pending, item_error = None\<rparr>) ?toApply,
                 tn_progressIndex := 0,
                 tn_showProgress := True,
                 tn_bulkApplying := True,
                 tn_applyError := None\<rparr>"
  have a: "TransferNames_applySelected localeCompare respond cancel s
      = (rename_loop respond cancel 0 ?toApply ?s1)\<lparr>tn_bulkApplying := False\<rparr>"
    using assms by (simp add: TransferNames_applySelected_def Let_def)
  have "\<not> tn_cancelRef ?s1" "tn_bulkApplying ?s1" by simp_all
  from rename_loop_closed [OF this, of respond cancel 0 ?toApply]
  have "tn_progressItems (rename_loop respond cancel 0 ?toApply ?s1)
       = outcomes_from (\<lambda>j. rename_outcome (respond j)) 0
           (processed cancel 0 (length ?toApply)) (map rename_pending ?toApply)
     \<and> requests (rename_loop respond cancel 0 ?toApply ?s1)
       = requests s @ map rename_request (take (processed cancel 0 (length ?toApply)) ?toApply)"
    by (simp add: rename_pending_def [abs_def])
  then show ?thesis unfolding a by simp
qed

lemma filteredMatches_subset:
  "set (TransferNames_filteredMatches localeCompare s) \<subseteq> set (clusterMatches (matching s))"
  by (auto simp: TransferNames_filteredMatches_def Let_def set_Array_sort
      split: ConfidenceFilter.splits)

lemma filteredMatches_applicable:
  "tn_filterMode s = Transfer_applicable \<Longrightarrow> m \<in> set (TransferNames_filteredMatches localeCompare s)
     \<Longrightarrow> \<not> isAlreadyNamed m"
  by (auto simp: TransferNames_filteredMatches_def Let_def set_Array_sort
      split: ConfidenceFilter.splits)

lemma isAlreadyNamed_iff:
  "\<not> isAlreadyNamed m \<longleftrightarrow> pm_immich_cluster_name m = None \<or> pm_immich_cluster_name m = Some []"
  by (simp add: isAlreadyNamed_def split: option.splits)

lemma applySelected_requests:
  "r \<in> set (requests (TransferNames_applySelected localeCompare respond cancel s)) \<Longrightarrow>
     r \<in> set (requests s)
     \<or> (\<exists>m \<in> set (matchesToApply localeCompare s). r = rename_request m)"
proof (cases "matchesToApply localeCompare s = []")
  case True
  assume "r \<in> set (requests (TransferNames_applySelected localeCompare respond cancel s))"
  with True show ?thesis by (simp add: TransferNames_applySelected_def)
next
  case False
  assume "r \<in> set (requests (TransferNames_applySelected localeCompare respond cancel s))"
  then have "r \<in> set (requests s)
      \<or> r \<in> rename_request ` set (take (processed cancel 0 (length (matchesToApply localeCompare s)))
              (matchesToApply localeCompare s))"
    using applySelected_closed [OF False, of respond cancel] by auto
  then show ?thesis using set_take_subset by fastforce
qed

lemma applySingle_requests:
  "requests (TransferNames_applySingle response match s) = requests s @ [rename_request match]"
  by (cases response)
     (auto simp: TransferNames_applySingle_def Let_def markClusterRenamed_def)

text \<open>
  Claim C4. Every match listed under the \<open>applicable\<close> filter has a cluster name that
  is \<open>null\<close> or empty; every id that Select All selects is the cluster id of a listed
  match with such a name; every request that the bulk path adds to those already sent
  is the rename request of a match of the context with such a name (selected and not yet
  applied); and the Apply button of a row, which exists only when \<open>canApply\<close> holds,
  sends a request only for a match with such a name.
\<close>

theorem C4_rename_only_unnamed:
  "(tn_filterMode s = Transfer_applicable \<longrightarrow>
      (\<forall>m \<in> set (TransferNames_filteredMatches localeCompare s).
          pm_immich_cluster_name m = None \<or> pm_immich_cluster_name m = Some []))
   \<and> (\<forall>cid \<in> set (tn_selectedIds (selectAll localeCompare s)).
        \<exists>m \<in> set (TransferNames_filteredMatches localeCompare s).
          pm_immich_cluster_id m = cid
          \<and> (pm_immich_cluster_name m = None \<or> pm_immich_cluster_name m = Some []))
   \<and> (\<forall>r \<in> set (requests (TransferNames_applySelected localeCompare respond cancel s)).
        r \<in> set (requests s)
        \<or> (\<exists>m \<in> set (clusterMatches (matching s)).
              r = rename_request m
              \<and> (pm_immich_cluster_name m = None \<or> pm_immich_cluster_name m = Some [])
              \<and> Set_has (tn_selectedIds s) (pm_immich_cluster_id m)
              \<and> \<not> isApplied (appliedChanges (matching s)) m))
   \<and> (\<forall>r \<in> set (requests (Apply_button_click response match s)).
        r \<in> set (requests s)
        \<or> (r = rename_request match
            \<and> (pm_immich_cluster_name match = None \<or> pm_immich_cluster_name match = Some [])))"
proof (intro conjI impI ballI)
  fix m
  assume "tn_filterMode s = Transfer_applicable"
    and "m \<in> set (TransferNames_filteredMatches localeCompare s)"
  then have "\<not> isAlreadyNamed m" by (rule filteredMatches_applicable)
  then show "pm_immich_cluster_name m = None \<or> pm_immich_cluster_name m = Some []"
    by (simp add: isAlreadyNamed_iff)
next
  fix cid
  assume "cid \<in> set (tn_selectedIds (selectAll localeCompare s))"
  then obtain m where "m \<in> set (TransferNames_filteredMatches localeCompare s)"
    "\<not> isAlreadyNamed m" "pm_immich_cluster_id m = cid"
    by (auto simp: selectAll_def Let_def set_Set_of_list)
  then show "\<exists>m \<in> set (TransferNames_filteredMatches localeCompare s).
          pm_immich_cluster_id m = cid
          \<and> (pm_immich_cluster_name m = None \<or> pm_immich_cluster_name m = Some [])"
    using isAlreadyNamed_iff by blast
next
  fix r
  assume "r \<in> set (requests (TransferNames_applySelected localeCompare respond cancel s))"
  then have "r \<in> set (requests s)
     \<or> (\<exists>m \<in> set (matchesToApply localeCompare s). r = rename_request m)"
    by (rule applySelected_requests)
  then show "r \<in> set (requests s)
        \<or> (\<exists>m \<in> set (clusterMatches (matching s)).
              r = rename_request m
              \<and> (pm_immich_cluster_name m = None \<or> pm_immich_cluster_name m = Some [])
              \<and> Set_has (tn_selectedIds s) (pm_immich_cluster_id m)
              \<and> \<not> isApplied (appliedChanges (matching s)) m)"
    using matchesToApply_unnamed isAlreadyNamed_iff by blast
next
  fix r
  assume r: "r \<in> set (requests (Apply_button_click response match s))"
  show "r \<in> set (requests s)
        \<or> (r = rename_request match
            \<and> (pm_immich_cluster_name match = None \<or> pm_immich_cluster_name match = Some []))"
  proof (cases "canApply (appliedChanges (matching s)) match")
    case True
    then have "\<not> isAlreadyNamed match" by (simp add: canApply_def)
    moreover have "r \<in> set (requests s) \<or> r = rename_request match"
      using r True by (auto simp: Apply_button_click_def applySingle_requests)
    ultimately show ?thesis using isAlreadyNamed_iff by blast
  next
    case False
    with r show ?thesis by (simp add: Apply_button_click_def)
  qed
qed

lemma example_toApply:
  "matchesToApply (\<lambda>a b. 0) example_transfer_state = [example_unnamed, example_other]"
  by (simp add: matchesToApply_def TransferNames_filteredMatches_def Let_def Array_sort_def
      example_transfer_state_def initialState_def example_named_def example_unnamed_def
      example_other_def transfer_compare_def isAlreadyNamed_def isApplied_def Set_has_def
      emptyChanges_def)

theorem C4_rename_only_unnamed_witness:
  "requests (TransferNames_applySelected (\<lambda>a b. 0) (\<lambda>i. Inr renamed_ok) (\<lambda>i. False)
              example_transfer_state)
     = [rename_request example_unnamed, rename_request example_other]
   \<and> rename_request example_named
       \<notin> set (requests (TransferNames_applySelected (\<lambda>a b. 0) (\<lambda>i. Inr renamed_ok) (\<lambda>i. False)
              example_transfer_state))
   \<and> requests (Apply_button_click (Inr renamed_ok) example_named example_transfer_state) = []"
proof -
  let ?s' = "TransferNames_applySelected (\<lambda>a b. 0) (\<lambda>i. Inr renamed_ok) (\<lambda>i. False)
              example_transfer_state"
  have ne: "matchesToApply (\<lambda>a b. 0) example_transfer_state \<noteq> []"
    by (simp add: example_toApply)
  have p: "processed (\<lambda>i. False) 0 (length [example_unnamed, example_other]) = 2"
    by (simp add: processed_no_cancel)
  have r0: "requests example_transfer_state = []"
    by (simp add: example_transfer_state_def)
  have a: "requests ?s' = [rename_request example_unnamed, rename_request example_other]"
    using applySelected_closed [OF ne, of "\<lambda>i. Inr renamed_ok" "\<lambda>i. False"]
    by (simp add: example_toApply p r0)
  have named: "pm_immich_cluster_name example_named = Some ''Alice B.''"
    by (simp add: example_named_def)
  have b: "rename_request example_named \<notin> set (requests ?s')"
  proof
    assume "rename_request example_named \<in> set (requests ?s')"
    with C4_rename_only_unnamed
           [of example_transfer_state "\<lambda>a b. 0" "\<lambda>i. Inr renamed_ok" "\<lambda>i. False"
               "Inr renamed_ok" example_named]
    obtain m where eq: "rename_request example_named = rename_request m"
      and nm: "pm_immich_cluster_name m = None \<or> pm_immich_cluster_name m = Some []"
      and mem: "m \<in> set (clusterMatches (matching example_transfer_state))"
      using r0 by auto
    from eq have cid: "pm_immich_cluster_id m = ''c-1''"
      by (simp add: rename_request_def example_named_def)
    from mem have "m = example_named \<or> m = example_unnamed \<or> m = example_other"
      by (simp add: example_transfer_state_def initialState_def)
    with cid have "m = example_named"
      by (auto simp: example_unnamed_def example_other_def)
    with nm named show False by simp
  qed
  have c: "requests (Apply_button_click (Inr renamed_ok) example_named example_transfer_state) = []"
    by (simp add: Apply_button_click_def canApply_def isAlreadyNamed_def named r0)
  from a b c show ?thesis by blast
qed

section \<open>The bulk assignment loop\<close>






lemma update_item_twice:
  "update_item i f (update_item i g xs) = update_item i (\<lambda>item. f (g item)) xs"
  by (simp add: update_item_eq)




lemma nth_update_item:
  "j < length xs \<Longrightarrow> update_item i g xs ! j = (if j = i then g (xs ! j) else xs ! j)"
  by (simp add: update_item_eq)








section \<open>Requests of the Create Faces tab\<close>













section \<open>The bulk creation loop without cancellation\<close>

lemma error_or_nonempty: "fallback \<noteq> [] \<Longrightarrow> error_or e fallback \<noteq> []"
  by (simp add: error_or_def split: option.splits)

lemma create_faces_loop_cancelled:
  "cf_cancelRef (fst acc) \<Longrightarrow>
     create_faces_loop respond cancel i p n faceIdx faces acc = acc"
  by (cases faces) simp_all

lemma create_face_frame:
  "cf_progressItems (fst (create_face p n faceIdx face r c acc)) = cf_progressItems (fst acc)
   \<and> cf_bulkApplying (fst (create_face p n faceIdx face r c acc)) = cf_bulkApplying (fst acc)
   \<and> requests (fst (create_face p n faceIdx face r c acc))
       = requests (fst acc) @ [create_request p face]
   \<and> cf_cancelRef (fst (create_face p n faceIdx face r c acc))
       = (cf_cancelRef (fst acc) \<or> (c \<and> cf_bulkApplying (fst acc)))
   \<and> (0 < fst (snd (create_face p n faceIdx face r c acc))
        \<longleftrightarrow> 0 < fst (snd acc) \<or> create_succeeded r)"
  by (cases r)
     (auto simp: create_face_def Let_def CreateFaces_handleCancelProgress_def
        create_succeeded_def)

lemma create_faces_loop_no_cancel:
  "\<not> cf_cancelRef (fst acc) \<Longrightarrow> (\<forall>j < length faces. \<not> cancel i (faceIdx + j)) \<Longrightarrow>
     cf_progressItems (fst (create_faces_loop respond cancel i p n faceIdx faces acc))
       = cf_progressItems (fst acc)
     \<and> \<not> cf_cancelRef (fst (create_faces_loop respond cancel i p n faceIdx faces acc))
     \<and> cf_bulkApplying (fst (create_faces_loop respond cancel i p n faceIdx faces acc))
       = cf_bulkApplying (fst acc)
     \<and> requests (fst (create_faces_loop respond cancel i p n faceIdx faces acc))
       = requests (fst acc) @ map (create_request p) faces
     \<and> (0 < fst (snd (create_faces_loop respond cancel i p n faceIdx faces acc))
          \<longleftrightarrow> 0 < fst (snd acc)
              \<or> (\<exists>j < length faces. create_succeeded (respond i (faceIdx + j))))"
proof (induction faces arbitrary: faceIdx acc)
  case Nil
  then show ?case by simp
next
  case (Cons face rest)
  let ?acc' = "create_face p n faceIdx face (respond i faceIdx) (cancel i faceIdx) acc"
  note fr = create_face_frame [of p n faceIdx face "respond i faceIdx" "cancel i faceIdx" acc]
  have step: "create_faces_loop respond cancel i p n faceIdx (face # rest) acc
      = create_faces_loop respond cancel i p n (faceIdx + 1) rest ?acc'"
    using Cons.prems(1) by simp
  have c0: "\<not> cancel i faceIdx" using Cons.prems(2) [rule_format, of 0] by simp
  then have nc: "\<not> cf_cancelRef (fst ?acc')" using fr Cons.prems(1) by simp
  have rest_nc: "\<forall>j < length rest. \<not> cancel i (faceIdx + 1 + j)"
  proof (rule allI, rule impI)
    fix j assume "j < length rest"
    then have "Suc j < length (face # rest)" by simp
    from Cons.prems(2) [rule_format, OF this] show "\<not> cancel i (faceIdx + 1 + j)" by simp
  qed
  note ih = Cons.IH [OF nc rest_nc]
  have ex: "(\<exists>j < length (face # rest). create_succeeded (respond i (faceIdx + j)))
      = (create_succeeded (respond i faceIdx)
         \<or> (\<exists>j < length rest. create_succeeded (respond i (faceIdx + 1 + j))))"
  proof
    assume "\<exists>j < length (face # rest). create_succeeded (respond i (faceIdx + j))"
    then obtain j where j: "j < length (face # rest)" "create_succeeded (respond i (faceIdx + j))"
      by blast
    show "create_succeeded (respond i faceIdx)
         \<or> (\<exists>j < length rest. create_succeeded (respond i (faceIdx + 1 + j)))"
    proof (cases j)
      case 0
      with j show ?thesis by simp
    next
      case (Suc j')
      with j have "j' < length rest \<and> create_succeeded (respond i (faceIdx + 1 + j'))" by simp
      then show ?thesis by blast
    qed
  next
    assume "create_succeeded (respond i faceIdx)
         \<or> (\<exists>j < length rest. create_succeeded (respond i (faceIdx + 1 + j)))"
    then show "\<exists>j < length (face # rest). create_succeeded (respond i (faceIdx + j))"
    proof
      assume "create_succeeded (respond i faceIdx)"
      then show ?thesis by (intro exI [of _ 0]) simp
    next
      assume "\<exists>j < length rest. create_succeeded (respond i (faceIdx + 1 + j))"
      then obtain j where "j < length rest" "create_succeeded (respond i (faceIdx + 1 + j))"
        by blast
      then show ?thesis by (intro exI [of _ "Suc j"]) simp
    qed
  qed
  show ?case
    unfolding step ex using ih fr by auto
qed

lemma create_person_no_cancel:
  assumes "\<not> cf_cancelRef s"
    and "\<forall>f < length (CreateFaces_facesToApply sel p). \<not> cancel i f"
  shows "\<not> cf_cancelRef (create_person respond cancel sel i p s)
     \<and> cf_bulkApplying (create_person respond cancel sel i p s) = cf_bulkApplying s
     \<and> requests (create_person respond cancel sel i p s)
         = requests s @ map (create_request p) (CreateFaces_facesToApply sel p)
     \<and> (\<exists>g. cf_progressItems (create_person respond cancel sel i p s)
               = update_item i g (cf_progressItems s)
            \<and> (\<forall>item.
                 (person_succeeds (respond i) (CreateFaces_facesToApply sel p)
                    \<longrightarrow> item_status (g item) = Success)
                 \<and> (\<not> person_succeeds (respond i) (CreateFaces_facesToApply sel p)
                    \<longrightarrow> item_status (g item) = Error
                        \<and> item_error (g item) \<noteq> None \<and> item_error (g item) \<noteq> Some [])))"
proof (cases "CreateFaces_facesToApply sel p = []")
  case True
  then have "cf_progressItems (create_person respond cancel sel i p s)
      = update_item i (\<lambda>item. item\<lparr>item_status := Success\<rparr>) (cf_progressItems s)"
    by (simp add: create_person_def Let_def)
  then have "\<exists>g. cf_progressItems (create_person respond cancel sel i p s)
               = update_item i g (cf_progressItems s)
            \<and> (\<forall>item.
                 (person_succeeds (respond i) (CreateFaces_facesToApply sel p)
                    \<longrightarrow> item_status (g item) = Success)
                 \<and> (\<not> person_succeeds (respond i) (CreateFaces_facesToApply sel p)
                    \<longrightarrow> item_status (g item) = Error
                        \<and> item_error (g item) \<noteq> None \<and> item_error (g item) \<noteq> Some []))"
    using True
    by (intro exI [of _ "\<lambda>item. item\<lparr>item_status := Success\<rparr>"]) (simp add: person_succeeds_def)
  moreover have "\<not> cf_cancelRef (create_person respond cancel sel i p s)
     \<and> cf_bulkApplying (create_person respond cancel sel i p s) = cf_bulkApplying s
     \<and> requests (create_person respond cancel sel i p s)
         = requests s @ map (create_request p) (CreateFaces_facesToApply sel p)"
    using True assms(1) by (simp add: create_person_def Let_def)
  ultimately show ?thesis by blast
next
  case False
  let ?faces = "CreateFaces_facesToApply sel p"
  let ?s2 = "s\<lparr>cf_progressIndex := i,
                cf_progressItems :=
                  update_item i (\<lambda>item. item\<lparr>item_status := Processing\<rparr>) (cf_progressItems s)\<rparr>"
  let ?looped = "create_faces_loop respond cancel i p (length ?faces) 0 ?faces (?s2, 0, None)"
  let ?sc = "fst (snd ?looped)"
  let ?le = "snd (snd ?looped)"
  have ne: "length ?faces \<noteq> 0" using False by simp
  have a: "\<not> cf_cancelRef (fst (?s2, 0::nat, None::string option))" using assms(1) by simp
  have b: "\<forall>j < length ?faces. \<not> cancel i (0 + j)" using assms(2) by simp
  from create_faces_loop_no_cancel
         [where acc = "(?s2, 0, None)" and faces = ?faces and cancel = cancel and i = i
            and faceIdx = 0 and respond = respond and p = p and n = "length ?faces", OF a b]
  have l1: "cf_progressItems (fst ?looped)
        = update_item i (\<lambda>item. item\<lparr>item_status := Processing\<rparr>) (cf_progressItems s)"
    and l2: "\<not> cf_cancelRef (fst ?looped)"
    and l3: "cf_bulkApplying (fst ?looped) = cf_bulkApplying s"
    and l4: "requests (fst ?looped) = requests s @ map (create_request p) ?faces"
    and l5: "(0 < ?sc) = (\<exists>j < length ?faces. create_succeeded (respond i j))"
    by simp_all
  have ps: "person_succeeds (respond i) ?faces = (0 < ?sc)"
    using False l5 by (simp add: person_succeeds_def)
  have frame: "\<not> cf_cancelRef (create_person respond cancel sel i p s)
     \<and> cf_bulkApplying (create_person respond cancel sel i p s) = cf_bulkApplying s
     \<and> requests (create_person respond cancel sel i p s)
         = requests s @ map (create_request p) ?faces"
    using ne l2 l3 l4
    by (simp add: create_person_def Let_def del: create_faces_loop.simps)
  consider (all) "?sc = length ?faces" | (some) "?sc \<noteq> length ?faces" "0 < ?sc" | (none) "?sc = 0"
    by (cases "?sc = 0") auto
  then have "\<exists>g. cf_progressItems (create_person respond cancel sel i p s)
               = update_item i g (cf_progressItems s)
            \<and> (\<forall>item.
                 (person_succeeds (respond i) ?faces \<longrightarrow> item_status (g item) = Success)
                 \<and> (\<not> person_succeeds (respond i) ?faces
                    \<longrightarrow> item_status (g item) = Error
                        \<and> item_error (g item) \<noteq> None \<and> item_error (g item) \<noteq> Some []))"
  proof cases
    case all
    then have pos: "0 < ?sc" using ne by simp
    with all have "cf_progressItems (create_person respond cancel sel i p s)
        = update_item i (\<lambda>item. item\<lparr>item_status := Success\<rparr>) (cf_progressItems (fst ?looped))"
      using ne by (simp add: create_person_def Let_def del: create_faces_loop.simps)
    then have "cf_progressItems (create_person respond cancel sel i p s)
        = update_item i (\<lambda>item. item\<lparr>item_status := Success\<rparr>) (cf_progressItems s)"
      by (simp add: l1 update_item_twice)
    then show ?thesis
      using pos unfolding ps
      by (intro exI [of _ "\<lambda>item. item\<lparr>item_status := Success\<rparr>"]) simp
  next
    case some
    let ?g = "\<lambda>item. item\<lparr>item_status := Success,
                            item_name := up_ms_person_name p @ '' ('' @
                              String_of_nat ?sc @ ''/'' @
                              String_of_nat (length ?faces) @ '' faces)''\<rparr>"
    from some have "cf_progressItems (create_person respond cancel sel i p s)
        = update_item i ?g (cf_progressItems (fst ?looped))"
      using ne by (simp add: create_person_def Let_def del: create_faces_loop.simps)
    then have "cf_progressItems (create_person respond cancel sel i p s)
        = update_item i ?g (cf_progressItems s)"
      by (simp add: l1 update_item_twice)
    then show ?thesis
      using some(2) unfolding ps by (intro exI [of _ ?g]) simp
  next
    case none
    let ?g = "\<lambda>item. item\<lparr>item_status := Error,
                            item_error := Some (error_or ?le ''All faces failed'')\<rparr>"
    from none have "cf_progressItems (create_person respond cancel sel i p s)
        = update_item i ?g (cf_progressItems (fst ?looped))"
      using ne by (simp add: create_person_def Let_def del: create_faces_loop.simps)
    then have "cf_progressItems (create_person respond cancel sel i p s)
        = update_item i ?g (cf_progressItems s)"
      by (simp add: l1 update_item_twice)
    moreover have "error_or ?le ''All faces failed'' \<noteq> []"
      by (rule error_or_nonempty) simp
    ultimately show ?thesis
      using none unfolding ps by (intro exI [of _ ?g]) simp
  qed
  with frame show ?thesis by blast
qed

lemma create_loop_no_cancel:
  assumes "\<not> cf_cancelRef s" "\<forall>i f. \<not> cancel i f"
  shows "requests (create_loop respond cancel sel i rest s)
       = requests s
         @ concat (map (\<lambda>p. map (create_request p) (CreateFaces_facesToApply sel p)) rest)
     \<and> length (cf_progressItems (create_loop respond cancel sel i rest s))
       = length (cf_progressItems s)
     \<and> (\<forall>j < length (cf_progressItems s).
           (i \<le> j \<and> j < i + length rest \<longrightarrow>
              (person_succeeds (respond j) (CreateFaces_facesToApply sel (rest ! (j - i)))
                 \<longrightarrow> item_status (cf_progressItems (create_loop respond cancel sel i rest s) ! j)
                       = Success)
              \<and> (\<not> person_succeeds (respond j) (CreateFaces_facesToApply sel (rest ! (j - i)))
                 \<longrightarrow> item_status (cf_progressItems (create_loop respond cancel sel i rest s) ! j)
                       = Error
                     \<and> item_error (cf_progressItems (create_loop respond cancel sel i rest s) ! j)
                       \<noteq> None
                     \<and> item_error (cf_progressItems (create_loop respond cancel sel i rest s) ! j)
                       \<noteq> Some []))
         \<and> (j < i \<or> i + length rest \<le> j \<longrightarrow>
              cf_progressItems (create_loop respond cancel sel i rest s) ! j
                = cf_progressItems s ! j))"
  using assms(1)
proof (induction rest arbitrary: i s)
  case Nil
  then show ?case by auto
next
  case (Cons p rest)
  let ?s' = "create_person respond cancel sel i p s"
  let ?faces = "CreateFaces_facesToApply sel p"
  have step: "create_loop respond cancel sel i (p # rest) s
      = create_loop respond cancel sel (i + 1) rest ?s'"
    using Cons.prems by simp
  have nf: "\<forall>f < length ?faces. \<not> cancel i f" using assms(2) by simp
  from create_person_no_cancel [where s = s and sel = sel and p = p and cancel = cancel and i = i and respond = respond, OF Cons.prems nf]
  obtain g where nc: "\<not> cf_cancelRef ?s'"
    and rq: "requests ?s' = requests s @ map (create_request p) ?faces"
    and g: "cf_progressItems ?s' = update_item i g (cf_progressItems s)"
    and gs: "\<And>item. person_succeeds (respond i) ?faces \<Longrightarrow> item_status (g item) = Success"
    and ge: "\<And>item. \<not> person_succeeds (respond i) ?faces \<Longrightarrow>
               item_status (g item) = Error \<and> item_error (g item) \<noteq> None
               \<and> item_error (g item) \<noteq> Some []"
    by blast
  have len: "length (cf_progressItems ?s') = length (cf_progressItems s)"
    by (simp add: g)
  note ih = Cons.IH [OF nc, of "i + 1"]
  let ?P = "cf_progressItems (create_loop respond cancel sel (i + 1) rest ?s')"
  have ih_len: "length ?P = length (cf_progressItems s)" using ih len by simp
  note ih3 = ih [THEN conjunct2, THEN conjunct2, unfolded len]
  have ih_in: "(person_succeeds (respond j) (CreateFaces_facesToApply sel (rest ! (j - (i + 1))))
          \<longrightarrow> item_status (?P ! j) = Success)
      \<and> (\<not> person_succeeds (respond j) (CreateFaces_facesToApply sel (rest ! (j - (i + 1))))
          \<longrightarrow> item_status (?P ! j) = Error \<and> item_error (?P ! j) \<noteq> None
              \<and> item_error (?P ! j) \<noteq> Some [])"
    if "j < length (cf_progressItems s)" "i + 1 \<le> j" "j < i + 1 + length rest" for j
    using ih3 [rule_format, of j] that by simp
  have ih_out: "?P ! j = cf_progressItems ?s' ! j"
    if "j < length (cf_progressItems s)" "j < i + 1 \<or> i + 1 + length rest \<le> j" for j
    using ih3 [rule_format, of j] that by auto
  show ?case
  proof (intro conjI allI impI)
    show "requests (create_loop respond cancel sel i (p # rest) s)
       = requests s
         @ concat (map (\<lambda>p. map (create_request p) (CreateFaces_facesToApply sel p)) (p # rest))"
      unfolding step using ih rq by simp
  next
    show "length (cf_progressItems (create_loop respond cancel sel i (p # rest) s))
       = length (cf_progressItems s)"
      unfolding step by (rule ih_len)
  next
    fix j
    assume j: "j < length (cf_progressItems s)" and r: "i \<le> j \<and> j < i + length (p # rest)"
      and ok: "person_succeeds (respond j) (CreateFaces_facesToApply sel ((p # rest) ! (j - i)))"
    show "item_status (cf_progressItems (create_loop respond cancel sel i (p # rest) s) ! j) = Success"
    proof (cases "j = i")
      case True
      then have "?P ! j = g (cf_progressItems s ! i)"
        using ih_out [of j] j by (simp add: g nth_update_item)
      moreover have "person_succeeds (respond i) ?faces" using ok True by simp
      ultimately show ?thesis unfolding step using gs by simp
    next
      case False
      then have ji: "i + 1 \<le> j" "j < i + 1 + length rest" using r by simp_all
      have "(p # rest) ! (j - i) = rest ! (j - (i + 1))"
        using ji by (simp add: nth_Cons')
      with ok ih_in [OF j ji] show ?thesis unfolding step by simp
    qed
  next
    fix j
    assume j: "j < length (cf_progressItems s)" and r: "i \<le> j \<and> j < i + length (p # rest)"
      and no: "\<not> person_succeeds (respond j) (CreateFaces_facesToApply sel ((p # rest) ! (j - i)))"
    have "item_status (cf_progressItems (create_loop respond cancel sel i (p # rest) s) ! j) = Error
        \<and> item_error (cf_progressItems (create_loop respond cancel sel i (p # rest) s) ! j) \<noteq> None
        \<and> item_error (cf_progressItems (create_loop respond cancel sel i (p # rest) s) ! j)
            \<noteq> Some []"
    proof (cases "j = i")
      case True
      then have "?P ! j = g (cf_progressItems s ! i)"
        using ih_out [of j] j by (simp add: g nth_update_item)
      moreover have "\<not> person_succeeds (respond i) ?faces" using no True by simp
      ultimately show ?thesis unfolding step using ge by simp
    next
      case False
      then have ji: "i + 1 \<le> j" "j < i + 1 + length rest" using r by simp_all
      have "(p # rest) ! (j - i) = rest ! (j - (i + 1))"
        using ji by (simp add: nth_Cons')
      with no ih_in [OF j ji] show ?thesis unfolding step by simp
    qed
    then show "item_status (cf_progressItems (create_loop respond cancel sel i (p # rest) s) ! j)
          = Error"
      and "item_error (cf_progressItems (create_loop respond cancel sel i (p # rest) s) ! j) \<noteq> None"
      and "item_error (cf_progressItems (create_loop respond cancel sel i (p # rest) s) ! j)
            \<noteq> Some []"
      by simp_all
  next
    fix j
    assume j: "j < length (cf_progressItems s)" and r: "j < i \<or> i + length (p # rest) \<le> j"
    then have "?P ! j = cf_progressItems ?s' ! j" using ih_out [of j] by auto
    moreover have "j \<noteq> i" using r by auto
    ultimately show "cf_progressItems (create_loop respond cancel sel i (p # rest) s) ! j
          = cf_progressItems s ! j"
      unfolding step using j by (simp add: g nth_update_item)
  qed
qed

lemma TransferNames_applySelected_no_cancel:
  assumes "matchesToApply localeCompare s \<noteq> []" and "\<forall>j. \<not> cancel j"
  shows "requests (TransferNames_applySelected localeCompare respond cancel s)
       = requests s @ map rename_request (matchesToApply localeCompare s)
     \<and> length (tn_progressItems (TransferNames_applySelected localeCompare respond cancel s))
       = length (matchesToApply localeCompare s)
     \<and> (\<forall>j < length (matchesToApply localeCompare s).
          tn_progressItems (TransferNames_applySelected localeCompare respond cancel s) ! j
            = rename_outcome (respond j) (rename_pending (matchesToApply localeCompare s ! j)))
     \<and> \<not> tn_bulkApplying (TransferNames_applySelected localeCompare respond cancel s)"
proof -
  let ?toApply = "matchesToApply localeCompare s"
  have p: "processed cancel 0 (length ?toApply) = length ?toApply"
    by (rule processed_no_cancel) (simp add: assms(2))
  note c = applySelected_closed [OF assms(1), of respond cancel, unfolded p]
  have b: "\<not> tn_bulkApplying (TransferNames_applySelected localeCompare respond cancel s)"
    using assms(1) by (simp add: TransferNames_applySelected_def Let_def)
  have n: "tn_progressItems (TransferNames_applySelected localeCompare respond cancel s) ! j
      = rename_outcome (respond j) (rename_pending (?toApply ! j))" if "j < length ?toApply" for j
    using c that by (simp add: nth_outcomes_from)
  show ?thesis using c b n by simp
qed

lemma CreateFaces_applySelected_no_cancel:
  assumes "createsToApply localeCompare s \<noteq> []" and "\<forall>i f. \<not> cancel i f"
  shows "requests (CreateFaces_applySelected localeCompare respond cancel s)
       = requests s
         @ concat (map (\<lambda>p. map (create_request p)
                                (CreateFaces_facesToApply (cf_faceSelections s) p))
                     (createsToApply localeCompare s))
     \<and> length (cf_progressItems (CreateFaces_applySelected localeCompare respond cancel s))
       = length (createsToApply localeCompare s)
     \<and> (\<forall>j < length (createsToApply localeCompare s).
          (person_succeeds (respond j)
             (CreateFaces_facesToApply (cf_faceSelections s) (createsToApply localeCompare s ! j))
           \<longrightarrow> item_status
                 (cf_progressItems (CreateFaces_applySelected localeCompare respond cancel s) ! j)
                 = Success)
          \<and> (\<not> person_succeeds (respond j)
               (CreateFaces_facesToApply (cf_faceSelections s) (createsToApply localeCompare s ! j))
           \<longrightarrow> item_status
                 (cf_progressItems (CreateFaces_applySelected localeCompare respond cancel s) ! j)
                 = Error
               \<and> item_error
                 (cf_progressItems (CreateFaces_applySelected localeCompare respond cancel s) ! j)
                 \<noteq> None
               \<and> item_error
                 (cf_progressItems (CreateFaces_applySelected localeCompare respond cancel s) ! j)
                 \<noteq> Some []))
     \<and> \<not> cf_bulkApplying (CreateFaces_applySelected localeCompare respond cancel s)"
proof -
  let ?toApply = "createsToApply localeCompare s"
  let ?sel = "cf_faceSelections s"
  let ?s1 = "s\<lparr>cf_cancelRef := False,
                 cf_progressItems := map (create_pending (cf_faceSelections s)) ?toApply,
                 cf_progressIndex := 0,
                 cf_subProgress := None,
                 cf_showProgress := True,
                 cf_bulkApplying := True,
                 cf_applyError := None,
                 cf_applySuccess := None\<rparr>"
  have ne: "length ?toApply \<noteq> 0" using assms(1) by simp
  have a: "cf_progressItems (CreateFaces_applySelected localeCompare respond cancel s)
      = cf_progressItems (create_loop respond cancel ?sel 0 ?toApply ?s1)"
    and r: "requests (CreateFaces_applySelected localeCompare respond cancel s)
      = requests (create_loop respond cancel ?sel 0 ?toApply ?s1)"
    and b: "\<not> cf_bulkApplying (CreateFaces_applySelected localeCompare respond cancel s)"
    using ne by (simp_all add: CreateFaces_applySelected_def Let_def)
  have nc: "\<not> cf_cancelRef ?s1" by simp
  have l: "length (cf_progressItems ?s1) = length ?toApply"
    and q: "requests ?s1 = requests s" by simp_all
  note c = create_loop_no_cancel [where s = ?s1 and cancel = cancel and respond = respond
      and sel = ?sel and i = 0 and rest = ?toApply, OF nc assms(2), unfolded l q]
  show ?thesis unfolding a r using c b by simp
qed

lemma example_createsToApply:
  "createsToApply (\<lambda>a b. 0) example_create_state = [example_person]"
  by (simp add: createsToApply_def CreateFaces_filteredPreviews_def Let_def Array_sort_def
      example_create_state_def example_person_def Set_has_def)

lemma example_facesToApply:
  "CreateFaces_facesToApply (cf_faceSelections example_create_state) example_person
     = [example_rect_face, example_inner_face]"
  by (simp add: CreateFaces_facesToApply_def CreateFaces_getSelectedFaces_def Let_def
      example_create_state_def example_person_def Set_has_def Set_of_list_def Set_add_def
      getFaceId_def example_rect_face_def example_inner_face_def String_of_nat.simps)

lemma rename_outcome_success:
  "rename_succeeded r \<Longrightarrow> item_status (rename_outcome r item) = Success"
  by (cases r) (auto simp: rename_outcome_def rename_succeeded_def)

lemma rename_outcome_error:
  "\<not> rename_succeeded r \<Longrightarrow>
     item_status (rename_outcome r item) = Error \<and> item_error (rename_outcome r item) \<noteq> None"
  by (cases r) (auto simp: rename_outcome_def rename_succeeded_def)

text \<open>
  Claim C6. In a bulk rename and in a bulk face creation during which Cancel is not
  pressed, the calls are sent one after the other in the order of the submitted items
  (in the face creation, one call per selected face, the faces of a person in their
  order), every item ends with its own record in status success or error, and the batch
  reaches its end, where it clears its busy flag: a call that fails or throws is caught
  inside the loop. In the rename batch the record of item \<open>j\<close> is error, with a message,
  exactly when its call returned no success or threw, and depends on no other call. In
  the face creation batch an item is a person: its record is error, with a non-empty
  message, exactly when it has selected faces and none of their calls succeeded, and
  success when one of them succeeded or no face is selected.
\<close>

theorem C6_failures_stay_per_item:
  "(matchesToApply localeCompare s \<noteq> [] \<and> (\<forall>j. \<not> cancel j) \<longrightarrow>
      requests (TransferNames_applySelected localeCompare respond cancel s)
        = requests s @ map rename_request (matchesToApply localeCompare s)
      \<and> length (tn_progressItems (TransferNames_applySelected localeCompare respond cancel s))
        = length (matchesToApply localeCompare s)
      \<and> (\<forall>j < length (matchesToApply localeCompare s).
            tn_progressItems (TransferNames_applySelected localeCompare respond cancel s) ! j
              = rename_outcome (respond j) (rename_pending (matchesToApply localeCompare s ! j))
            \<and> (rename_succeeded (respond j) \<longrightarrow>
                 item_status (tn_progressItems
                   (TransferNames_applySelected localeCompare respond cancel s) ! j) = Success)
            \<and> (\<not> rename_succeeded (respond j) \<longrightarrow>
                 item_status (tn_progressItems
                   (TransferNames_applySelected localeCompare respond cancel s) ! j) = Error
                 \<and> item_error (tn_progressItems
                   (TransferNames_applySelected localeCompare respond cancel s) ! j) \<noteq> None))
      \<and> \<not> tn_bulkApplying (TransferNames_applySelected localeCompare respond cancel s))
   \<and> (createsToApply localeCompare' t \<noteq> [] \<and> (\<forall>i f. \<not> cancel' i f) \<longrightarrow>
      requests (CreateFaces_applySelected localeCompare' respond' cancel' t)
        = requests t
          @ concat (map (\<lambda>p. map (create_request p)
                                 (CreateFaces_facesToApply (cf_faceSelections t) p))
                      (createsToApply localeCompare' t))
      \<and> length (cf_progressItems (CreateFaces_applySelected localeCompare' respond' cancel' t))
        = length (createsToApply localeCompare' t)
      \<and> (\<forall>j < length (createsToApply localeCompare' t).
            (person_succeeds (respond' j)
               (CreateFaces_facesToApply (cf_faceSelections t) (createsToApply localeCompare' t ! j))
             \<longrightarrow> item_status
                   (cf_progressItems
                      (CreateFaces_applySelected localeCompare' respond' cancel' t) ! j)
                   = Success)
            \<and> (\<not> person_succeeds (respond' j)
                 (CreateFaces_facesToApply (cf_faceSelections t) (createsToApply localeCompare' t ! j))
             \<longrightarrow> item_status
                   (cf_progressItems
                      (CreateFaces_applySelected localeCompare' respond' cancel' t) ! j)
                   = Error
                 \<and> item_error
                   (cf_progressItems
                      (CreateFaces_applySelected localeCompare' respond' cancel' t) ! j)
                   \<noteq> None
                 \<and> item_error
                   (cf_progressItems
                      (CreateFaces_applySelected localeCompare' respond' cancel' t) ! j)
                   \<noteq> Some []))
      \<and> \<not> cf_bulkApplying (CreateFaces_applySelected localeCompare' respond' cancel' t))"
proof (rule conjI)
  show "matchesToApply localeCompare s \<noteq> [] \<and> (\<forall>j. \<not> cancel j) \<longrightarrow>
      requests (TransferNames_applySelected localeCompare respond cancel s)
        = requests s @ map rename_request (matchesToApply localeCompare s)
      \<and> length (tn_progressItems (TransferNames_applySelected localeCompare respond cancel s))
        = length (matchesToApply localeCompare s)
      \<and> (\<forall>j < length (matchesToApply localeCompare s).
            tn_progressItems (TransferNames_applySelected localeCompare respond cancel s) ! j
              = rename_outcome (respond j) (rename_pending (matchesToApply localeCompare s ! j))
            \<and> (rename_succeeded (respond j) \<longrightarrow>
                 item_status (tn_progressItems
                   (TransferNames_applySelected localeCompare respond cancel s) ! j) = Success)
            \<and> (\<not> rename_succeeded (respond j) \<longrightarrow>
                 item_status (tn_progressItems
                   (TransferNames_applySelected localeCompare respond cancel s) ! j) = Error
                 \<and> item_error (tn_progressItems
                   (TransferNames_applySelected localeCompare respond cancel s) ! j) \<noteq> None))
      \<and> \<not> tn_bulkApplying (TransferNames_applySelected localeCompare respond cancel s)"
  proof (rule impI)
    assume a: "matchesToApply localeCompare s \<noteq> [] \<and> (\<forall>j. \<not> cancel j)"
    then have ne: "matchesToApply localeCompare s \<noteq> []" and nc: "\<forall>j. \<not> cancel j" by simp_all
    note c = TransferNames_applySelected_no_cancel [OF ne nc, of respond]
    have n: "tn_progressItems (TransferNames_applySelected localeCompare respond cancel s) ! j
        = rename_outcome (respond j) (rename_pending (matchesToApply localeCompare s ! j))"
      if "j < length (matchesToApply localeCompare s)" for j
      using c that by simp
    show "requests (TransferNames_applySelected localeCompare respond cancel s)
        = requests s @ map rename_request (matchesToApply localeCompare s)
      \<and> length (tn_progressItems (TransferNames_applySelected localeCompare respond cancel s))
        = length (matchesToApply localeCompare s)
      \<and> (\<forall>j < length (matchesToApply localeCompare s).
            tn_progressItems (TransferNames_applySelected localeCompare respond cancel s) ! j
              = rename_outcome (respond j) (rename_pending (matchesToApply localeCompare s ! j))
            \<and> (rename_succeeded (respond j) \<longrightarrow>
                 item_status (tn_progressItems
                   (TransferNames_applySelected localeCompare respond cancel s) ! j) = Success)
            \<and> (\<not> rename_succeeded (respond j) \<longrightarrow>
                 item_status (tn_progressItems
                   (TransferNames_applySelected localeCompare respond cancel s) ! j) = Error
                 \<and> item_error (tn_progressItems
                   (TransferNames_applySelected localeCompare respond cancel s) ! j) \<noteq> None))
      \<and> \<not> tn_bulkApplying (TransferNames_applySelected localeCompare respond cancel s)"
    proof (intro conjI)
      show "requests (TransferNames_applySelected localeCompare respond cancel s)
        = requests s @ map rename_request (matchesToApply localeCompare s)"
        using c by simp
      show "length (tn_progressItems (TransferNames_applySelected localeCompare respond cancel s))
        = length (matchesToApply localeCompare s)"
        using c by simp
      show "\<not> tn_bulkApplying (TransferNames_applySelected localeCompare respond cancel s)"
        using c by simp
      show "\<forall>j < length (matchesToApply localeCompare s).
            tn_progressItems (TransferNames_applySelected localeCompare respond cancel s) ! j
              = rename_outcome (respond j) (rename_pending (matchesToApply localeCompare s ! j))
            \<and> (rename_succeeded (respond j) \<longrightarrow>
                 item_status (tn_progressItems
                   (TransferNames_applySelected localeCompare respond cancel s) ! j) = Success)
            \<and> (\<not> rename_succeeded (respond j) \<longrightarrow>
                 item_status (tn_progressItems
                   (TransferNames_applySelected localeCompare respond cancel s) ! j) = Error
                 \<and> item_error (tn_progressItems
                   (TransferNames_applySelected localeCompare respond cancel s) ! j) \<noteq> None)"
      proof (rule allI, rule impI)
        fix j assume j: "j < length (matchesToApply localeCompare s)"
        show "tn_progressItems (TransferNames_applySelected localeCompare respond cancel s) ! j
              = rename_outcome (respond j) (rename_pending (matchesToApply localeCompare s ! j))
            \<and> (rename_succeeded (respond j) \<longrightarrow>
                 item_status (tn_progressItems
                   (TransferNames_applySelected localeCompare respond cancel s) ! j) = Success)
            \<and> (\<not> rename_succeeded (respond j) \<longrightarrow>
                 item_status (tn_progressItems
                   (TransferNames_applySelected localeCompare respond cancel s) ! j) = Error
                 \<and> item_error (tn_progressItems
                   (TransferNames_applySelected localeCompare respond cancel s) ! j) \<noteq> None)"
          unfolding n [OF j]
          using rename_outcome_success [of "respond j"] rename_outcome_error [of "respond j"]
          by blast
      qed
    qed
  qed
next
  show "createsToApply localeCompare' t \<noteq> [] \<and> (\<forall>i f. \<not> cancel' i f) \<longrightarrow>
      requests (CreateFaces_applySelected localeCompare' respond' cancel' t)
        = requests t
          @ concat (map (\<lambda>p. map (create_request p)
                                 (CreateFaces_facesToApply (cf_faceSelections t) p))
                      (createsToApply localeCompare' t))
      \<and> length (cf_progressItems (CreateFaces_applySelected localeCompare' respond' cancel' t))
        = length (createsToApply localeCompare' t)
      \<and> (\<forall>j < length (createsToApply localeCompare' t).
            (person_succeeds (respond' j)
               (CreateFaces_facesToApply (cf_faceSelections t) (createsToApply localeCompare' t ! j))
             \<longrightarrow> item_status
                   (cf_progressItems
                      (CreateFaces_applySelected localeCompare' respond' cancel' t) ! j)
                   = Success)
            \<and> (\<not> person_succeeds (respond' j)
                 (CreateFaces_facesToApply (cf_faceSelections t) (createsToApply localeCompare' t ! j))
             \<longrightarrow> item_status
                   (cf_progressItems
                      (CreateFaces_applySelected localeCompare' respond' cancel' t) ! j)
                   = Error
                 \<and> item_error
                   (cf_progressItems
                      (CreateFaces_applySelected localeCompare' respond' cancel' t) ! j)
                   \<noteq> None
                 \<and> item_error
                   (cf_progressItems
                      (CreateFaces_applySelected localeCompare' respond' cancel' t) ! j)
                   \<noteq> Some []))
      \<and> \<not> cf_bulkApplying (CreateFaces_applySelected localeCompare' respond' cancel' t)"
  proof (rule impI)
    assume a: "createsToApply localeCompare' t \<noteq> [] \<and> (\<forall>i f. \<not> cancel' i f)"
    then have ne: "createsToApply localeCompare' t \<noteq> []" and nc: "\<forall>i f. \<not> cancel' i f"
      by simp_all
    show "requests (CreateFaces_applySelected localeCompare' respond' cancel' t)
        = requests t
          @ concat (map (\<lambda>p. map (create_request p)
                                 (CreateFaces_facesToApply (cf_faceSelections t) p))
                      (createsToApply localeCompare' t))
      \<and> length (cf_progressItems (CreateFaces_applySelected localeCompare' respond' cancel' t))
        = length (createsToApply localeCompare' t)
      \<and> (\<forall>j < length (createsToApply localeCompare' t).
            (person_succeeds (respond' j)
               (CreateFaces_facesToApply (cf_faceSelections t) (createsToApply localeCompare' t ! j))
             \<longrightarrow> item_status
                   (cf_progressItems
                      (CreateFaces_applySelected localeCompare' respond' cancel' t) ! j)
                   = Success)
            \<and> (\<not> person_succeeds (respond' j)
                 (CreateFaces_facesToApply (cf_faceSelections t) (createsToApply localeCompare' t ! j))
             \<longrightarrow> item_status
                   (cf_progressItems
                      (CreateFaces_applySelected localeCompare' respond' cancel' t) ! j)
                   = Error
                 \<and> item_error
                   (cf_progressItems
                      (CreateFaces_applySelected localeCompare' respond' cancel' t) ! j)
                   \<noteq> None
                 \<and> item_error
                   (cf_progressItems
                      (CreateFaces_applySelected localeCompare' respond' cancel' t) ! j)
                   \<noteq> Some []))
      \<and> \<not> cf_bulkApplying (CreateFaces_applySelected localeCompare' respond' cancel' t)"
      by (rule CreateFaces_applySelected_no_cancel [OF ne nc])
  qed
qed

theorem C6_failures_stay_per_item_witness:
  "requests (TransferNames_applySelected (\<lambda>a b. 0)
              (\<lambda>i. if i = 0 then Inl (ErrorObj ''timeout'') else Inr renamed_ok) (\<lambda>i. False)
              example_transfer_state)
     = [rename_request example_unnamed, rename_request example_other]
   \<and> item_status (tn_progressItems (TransferNames_applySelected (\<lambda>a b. 0)
              (\<lambda>i. if i = 0 then Inl (ErrorObj ''timeout'') else Inr renamed_ok) (\<lambda>i. False)
              example_transfer_state) ! 0) = Error
   \<and> item_error (tn_progressItems (TransferNames_applySelected (\<lambda>a b. 0)
              (\<lambda>i. if i = 0 then Inl (ErrorObj ''timeout'') else Inr renamed_ok) (\<lambda>i. False)
              example_transfer_state) ! 0) = Some ''timeout''
   \<and> item_status (tn_progressItems (TransferNames_applySelected (\<lambda>a b. 0)
              (\<lambda>i. if i = 0 then Inl (ErrorObj ''timeout'') else Inr renamed_ok) (\<lambda>i. False)
              example_transfer_state) ! 1) = Success
   \<and> requests (CreateFaces_applySelected (\<lambda>a b. 0) (\<lambda>i f. Inl (ErrorObj ''network''))
              (\<lambda>i f. False) example_create_state)
     = [create_request example_person example_rect_face,
        create_request example_person example_inner_face]
   \<and> item_status (cf_progressItems (CreateFaces_applySelected (\<lambda>a b. 0)
              (\<lambda>i f. Inl (ErrorObj ''network'')) (\<lambda>i f. False) example_create_state) ! 0) = Error"
proof -
  have r0: "requests example_transfer_state = []" "requests example_create_state = []"
    by (simp_all add: example_transfer_state_def example_create_state_def)
  have ok: "rename_succeeded (Inr renamed_ok)" "\<not> rename_succeeded (Inl (ErrorObj ''timeout''))"
    by (simp_all add: rename_succeeded_def renamed_ok_def)
  have no: "\<not> person_succeeds (\<lambda>f. Inl (ErrorObj ''network'')) [example_rect_face, example_inner_face]"
    by (simp add: person_succeeds_def create_succeeded_def)
  have out: "item_error (rename_outcome (Inl (ErrorObj ''timeout'')) (rename_pending example_unnamed))
      = Some ''timeout''
    \<and> item_status (rename_outcome (Inl (ErrorObj ''timeout'')) (rename_pending example_unnamed))
      = Error"
    by (simp add: rename_outcome_def message_or_def)
  note c = C6_failures_stay_per_item [of "\<lambda>a b. 0" example_transfer_state "\<lambda>i. False"
      "\<lambda>i. if i = 0 then Inl (ErrorObj ''timeout'') else Inr renamed_ok"
      "\<lambda>a b. 0" example_create_state "\<lambda>i f. False" "\<lambda>i f. Inl (ErrorObj ''network'')"]
  have h1: "matchesToApply (\<lambda>a b. 0) example_transfer_state \<noteq> [] \<and> (\<forall>j::nat. \<not> False)"
    by (simp add: example_toApply)
  have h2: "createsToApply (\<lambda>a b. 0) example_create_state \<noteq> [] \<and> (\<forall>(i::nat) f::nat. \<not> False)"
    by (simp add: example_createsToApply)
  note t1 = c [THEN conjunct1, THEN mp, OF h1]
  note t2 = c [THEN conjunct2, THEN mp, OF h2]
  note ta = t1 [THEN conjunct2, THEN conjunct2, THEN conjunct1, rule_format]
  note tb = t2 [THEN conjunct2, THEN conjunct2, THEN conjunct1, rule_format]
  have a1: "requests (TransferNames_applySelected (\<lambda>a b. 0)
              (\<lambda>i. if i = 0 then Inl (ErrorObj ''timeout'') else Inr renamed_ok) (\<lambda>i. False)
              example_transfer_state)
     = [rename_request example_unnamed, rename_request example_other]"
    using t1 [THEN conjunct1] by (simp add: example_toApply r0)
  have a2: "item_status (tn_progressItems (TransferNames_applySelected (\<lambda>a b. 0)
              (\<lambda>i. if i = 0 then Inl (ErrorObj ''timeout'') else Inr renamed_ok) (\<lambda>i. False)
              example_transfer_state) ! 0) = Error
   \<and> item_error (tn_progressItems (TransferNames_applySelected (\<lambda>a b. 0)
              (\<lambda>i. if i = 0 then Inl (ErrorObj ''timeout'') else Inr renamed_ok) (\<lambda>i. False)
              example_transfer_state) ! 0) = Some ''timeout''"
    using ta [of 0, THEN conjunct1] by (simp add: example_toApply out)
  have a3: "item_status (tn_progressItems (TransferNames_applySelected (\<lambda>a b. 0)
              (\<lambda>i. if i = 0 then Inl (ErrorObj ''timeout'') else Inr renamed_ok) (\<lambda>i. False)
              example_transfer_state) ! 1) = Success"
    using ta [of 1, THEN conjunct2, THEN conjunct1] ok by (simp add: example_toApply)
  have a4: "requests (CreateFaces_applySelected (\<lambda>a b. 0) (\<lambda>i f. Inl (ErrorObj ''network''))
              (\<lambda>i f. False) example_create_state)
     = [create_request example_person example_rect_face,
        create_request example_person example_inner_face]"
    using t2 [THEN conjunct1] by (simp add: example_createsToApply example_facesToApply r0)
  have a5: "item_status (cf_progressItems (CreateFaces_applySelected (\<lambda>a b. 0)
              (\<lambda>i f. Inl (ErrorObj ''network'')) (\<lambda>i f. False) example_create_state) ! 0) = Error"
    using tb [of 0] no by (simp add: example_createsToApply example_facesToApply)
  show ?thesis using a1 a2 a3 a4 a5 by simp
qed

text \<open>
  A person with two selected faces whose first call throws and whose second call
  succeeds: the thrown exception leaves the person's record in status success, with no
  message.
\<close>

theorem C6_partial_success_counterexample:
  "first_fails 0 0 = Inl (ErrorObj ''network'')
   \<and> item_status (cf_progressItems (CreateFaces_applySelected (\<lambda>a b. 0) first_fails
        (\<lambda>i f. False) example_create_state) ! 0) = Success
   \<and> item_error (cf_progressItems (CreateFaces_applySelected (\<lambda>a b. 0) first_fails
        (\<lambda>i f. False) example_create_state) ! 0) = None
   \<and> item_name (cf_progressItems (CreateFaces_applySelected (\<lambda>a b. 0) first_fails
        (\<lambda>i f. False) example_create_state) ! 0) = ''Frank (1/2 faces)''
   \<and> requests (CreateFaces_applySelected (\<lambda>a b. 0) first_fails
        (\<lambda>i f. False) example_create_state)
     = [create_request example_person example_rect_face,
        create_request example_person example_inner_face]"
proof -
  have e: "requests example_create_state = []" "\<not> cf_cancelRef example_create_state"
    "up_ms_person_name example_person = ''Frank''"
    by (simp_all add: example_create_state_def example_person_def)
  show ?thesis
    by (simp add: CreateFaces_applySelected_def Let_def example_createsToApply
        create_person_def example_facesToApply create_face_def first_fails_def
        created_ok_def update_item_eq create_pending_def message_or_def
        String_of_nat.simps digit_char_def e)
qed

end
